theory Spec2Isabelle
  imports Complex_Main "HOL-Library.Multiset" "HOL-Library.Product_Lexorder" "HOL-Library.Option_ord"
begin

section \<open>geotag\_from\_gpx.py: numeric helpers\<close>

text \<open>
  Python numbers of this script (bearings, coordinates, seconds) are modelled as exact
  reals. \<open>x % y\<close> on Python numbers takes the sign of the divisor:
  \<open>x % y = x - y * floor (x / y)\<close>.
\<close>

definition py_mod :: "real \<Rightarrow> real \<Rightarrow> real" where
  "py_mod x y = x - y * of_int \<lfloor>x / y\<rfloor>"

text \<open>
  \<^verbatim>\<open>
  def add_bearing_offset(bearing, offset):
      r = bearing + offset
      if r >= 0 and r < 360:
          return r
      if r >= 360:
          return r % 360
      return -(-r % 360)
  \<close>
  Unary minus binds tighter than \<open>%\<close>, so the last line is \<open>-((-r) % 360)\<close>.
\<close>

definition add_bearing_offset :: "real \<Rightarrow> real \<Rightarrow> real" where
  "add_bearing_offset bearing offset =
     (let r = bearing + offset in
      if r \<ge> 0 \<and> r < 360 then r
      else if r \<ge> 360 then py_mod r 360
      else - (py_mod (- r) 360))"


definition py_int :: "real \<Rightarrow> int" where
  \<comment> \<open>\<open>int(x)\<close> on a Python float truncates towards zero\<close>
  "py_int x = (if 0 \<le> x then \<lfloor>x\<rfloor> else \<lceil>x\<rceil>)"

section \<open>Dates and durations\<close>

text \<open>
  A \<open>datetime\<close> and a \<open>timedelta\<close> hold a whole number of microseconds, the
  resolution of the library's values. \<open>timedelta(seconds=x)\<close> on a float rounds
  \<open>x * 10^6\<close> to the nearest whole microsecond, ties to the even one (Python's
  \<open>round\<close>); \<open>timedelta / int\<close> divides the microseconds and rounds the same way:
  \<^verbatim>\<open>
  def _divide_and_round(a, b):
      q, r = divmod(a, b)
      r *= 2
      greater_than_half = r > b if b > 0 else r < b
      if greater_than_half or r == b and q % 2 == 1:
          q += 1
      return q
  \<close>
  The binary representation of the float and the year range of \<open>datetime\<close> are not
  modelled.
\<close>

type_synonym filename = string
type_synonym datetime = int
type_synonym timedelta = int

definition py_round :: "real \<Rightarrow> int" where
  "py_round x =
     (let f = \<lfloor>x\<rfloor>; d = x - of_int f in
      if d < 1 / 2 then f
      else if 1 / 2 < d then f + 1
      else if even f then f else f + 1)"

definition timedelta_seconds :: "real \<Rightarrow> timedelta" where
  "timedelta_seconds seconds = py_round (seconds * 1000000)"

definition timedelta_milliseconds :: "int \<Rightarrow> timedelta" where
  "timedelta_milliseconds milliseconds = 1000 * milliseconds"

definition divide_and_round :: "int \<Rightarrow> int \<Rightarrow> int" where
  "divide_and_round a b =
     (let q = a div b; r = 2 * (a mod b);
          greater_than_half = (if b > 0 then r > b else r < b)
      in if greater_than_half \<or> (r = b \<and> q mod 2 = 1) then q + 1 else q)"

section \<open>Exceptions, printed lines, the external collaborators\<close>

datatype exn =
    KeyError string
  | ValueError string
  | TypeError string
  | UnboundLocalError string
  | SystemExit int
  | OtherError string

text \<open>Each \<open>print\<close> of the script is one constructor, holding the format arguments.\<close>

datatype message =
    ErrorReadingExifAt filename string
  | ErrorReading filename string
  | IntervalNotCompatible
  | Skipping filename string
  | AddedGeodata filename datetime real real "real option" real
  | EstimatingCaptureTime
  | ReadingGPX
  | StartingGeotagging nat
  | DoneGeotagging nat

text \<open>
  What \<open>pyexiv2\<close> gives for the two capture-time tags of one image: the outcome of
  \<open>m['Exif.Photo.DateTimeOriginal'].value\<close> and of
  \<open>int(m['Exif.Photo.SubSecTimeOriginal'].value)\<close>, each either a value or the
  exception raised (\<open>KeyError\<close> for an absent tag, \<open>ValueError\<close> for a malformed one).
\<close>

record exif =
  date_time_original :: "exn + datetime"
  sub_sec_time_original :: "exn + int"

text \<open>
  The objects \<open>gpxpy.parse\<close> returns. A point without a \<open>time\<close> element has the
  time \<open>None\<close>, one without an \<open>ele\<close> element the elevation \<open>None\<close>.
\<close>

record gpx_point =
  point_time :: "datetime option"
  point_latitude :: real
  point_longitude :: real
  point_elevation :: "real option"

record gpx_segment =
  segment_points :: "gpx_point list"

record gpx_track =
  track_segments :: "gpx_segment list"

record gpx =
  gpx_tracks :: "gpx_track list"
  gpx_waypoints :: "gpx_point list"

text \<open>A loaded track point is the tuple \<open>(time, lat, lon, elevation)\<close>.\<close>

type_synonym trackpoint = "datetime option \<times> real \<times> real \<times> real option"

text \<open>
  \<open>lib.geo\<close> is imported by the script and is not part of the sources at hand; its three
  functions are parameters. \<open>interpolate_lat_lon\<close> returns \<open>(lat, lon, bearing, elevation)\<close>
  or raises; \<open>decimal_to_dms\<close> returns \<open>(degrees, minutes, seconds, reference)\<close>;
  \<open>utc_to_localtime\<close> is handed \<open>point.time\<close> as it is and returns a time or raises.
\<close>

record geo =
  interpolate_lat_lon :: "trackpoint list \<Rightarrow> datetime \<Rightarrow> exn + (real \<times> real \<times> real \<times> real option)"
  decimal_to_dms :: "real \<Rightarrow> string list \<Rightarrow> int \<times> real \<times> real \<times> string"
  utc_to_localtime :: "datetime option \<Rightarrow> exn + datetime option"

text \<open>
  EXIF values the script writes: \<open>Fraction n d\<close> stands for \<open>make_fraction(n, d)\<close>,
  \<open>Triple\<close> for a tuple of three of them.
\<close>

datatype tagvalue =
    Fraction int int
  | Triple tagvalue tagvalue tagvalue
  | Str string
  | IntV int

type_synonym metadata = "string \<rightharpoonup> tagvalue"

record world =
  stdout :: "message list"
  image_metadata :: "filename \<Rightarrow> metadata"

definition print :: "message \<Rightarrow> world \<Rightarrow> world" where
  "print msg w = w\<lparr>stdout := stdout w @ [msg]\<rparr>"

section \<open>get\_lat\_lon\_time\<close>

text \<open>
  \<open>points.sort()\<close> compares the tuples with \<open><\<close>: the first position in which two
  tuples differ decides, and there \<open>None\<close> against a \<open>datetime\<close> or a number raises
  \<open>TypeError\<close>. Two tuples are comparable when that does not happen.
\<close>

definition comparable :: "trackpoint \<Rightarrow> trackpoint \<Rightarrow> bool" where
  "comparable p q =
     (case (p, q) of ((t, lat, lon, el), (t', lat', lon', el')) \<Rightarrow>
        if t \<noteq> t' then t \<noteq> None \<and> t' \<noteq> None
        else if lat \<noteq> lat' then True
        else if lon \<noteq> lon' then True
        else if el \<noteq> el' then el \<noteq> None \<and> el' \<noteq> None
        else True)"

text \<open>
  A comparison sort cannot place two distinct elements without comparing one incomparable
  pair that separates them, so the sort raises as soon as the list holds two incomparable
  tuples; otherwise the order is total on the elements of the list, and every sorting
  algorithm returns the same sorted list.
\<close>

definition py_sort :: "trackpoint list \<Rightarrow> exn + trackpoint list" where
  "py_sort points =
     (if list_all (\<lambda>p. list_all (comparable p) points) points
      then Inr (sort points)
      else Inl (TypeError ''< not supported between instances''))"

text \<open>
  \<^verbatim>\<open>
  points = []
  if len(gpx.tracks)>0:
      for track in gpx.tracks:
          for segment in track.segments:
              for point in segment.points:
                  if use_localtime:
                      points.append(((utc_to_localtime(point.time), point.latitude, point.longitude, point.elevation)))
                  else:
                      points.append((point.time, point.latitude, point.longitude, point.elevation))
  if len(gpx.waypoints) > 0:
      for point in gpx.waypoints: (the same two appends)
  points.sort()
  return points
  \<close>
  The argument is the parsed file. Each loop is a function that takes the list built so
  far and returns it extended, or the exception that ended it.
\<close>

definition append_point :: "geo \<Rightarrow> bool \<Rightarrow> gpx_point \<Rightarrow> trackpoint list \<Rightarrow> exn + trackpoint list" where
  "append_point g use_localtime point points =
     (if use_localtime
      then (case utc_to_localtime g (point_time point) of
              Inl e \<Rightarrow> Inl e
            | Inr t \<Rightarrow> Inr (points @ [(t, point_latitude point, point_longitude point, point_elevation point)]))
      else Inr (points @ [(point_time point, point_latitude point, point_longitude point, point_elevation point)]))"

fun for_points :: "geo \<Rightarrow> bool \<Rightarrow> gpx_point list \<Rightarrow> trackpoint list \<Rightarrow> exn + trackpoint list" where
  "for_points g use_localtime [] points = Inr points"
| "for_points g use_localtime (point # rest) points =
     (case append_point g use_localtime point points of
        Inl e \<Rightarrow> Inl e
      | Inr points' \<Rightarrow> for_points g use_localtime rest points')"

fun for_segments :: "geo \<Rightarrow> bool \<Rightarrow> gpx_segment list \<Rightarrow> trackpoint list \<Rightarrow> exn + trackpoint list" where
  "for_segments g use_localtime [] points = Inr points"
| "for_segments g use_localtime (segment # rest) points =
     (case for_points g use_localtime (segment_points segment) points of
        Inl e \<Rightarrow> Inl e
      | Inr points' \<Rightarrow> for_segments g use_localtime rest points')"

fun for_tracks :: "geo \<Rightarrow> bool \<Rightarrow> gpx_track list \<Rightarrow> trackpoint list \<Rightarrow> exn + trackpoint list" where
  "for_tracks g use_localtime [] points = Inr points"
| "for_tracks g use_localtime (track # rest) points =
     (case for_segments g use_localtime (track_segments track) points of
        Inl e \<Rightarrow> Inl e
      | Inr points' \<Rightarrow> for_tracks g use_localtime rest points')"

definition get_lat_lon_time :: "geo \<Rightarrow> gpx \<Rightarrow> bool \<Rightarrow> exn + trackpoint list" where
  "get_lat_lon_time g gpx_file use_localtime =
     (case (if length (gpx_tracks gpx_file) > 0
            then for_tracks g use_localtime (gpx_tracks gpx_file) []
            else Inr []) of
        Inl e \<Rightarrow> Inl e
      | Inr points \<Rightarrow>
          (case (if length (gpx_waypoints gpx_file) > 0
                 then for_points g use_localtime (gpx_waypoints gpx_file) points
                 else Inr points) of
             Inl e \<Rightarrow> Inl e
           | Inr points \<Rightarrow> py_sort points))"

section \<open>exif\_time\<close>

text \<open>
  \<^verbatim>\<open>
  image_millisec = 0
  try:
      image_time = m['Exif.Photo.DateTimeOriginal'].value
      image_millisec = int(m['Exif.Photo.SubSecTimeOriginal'].value)
  except ValueError as e:
      print("Error reading EXIF at {0}: {1}".format(filename, e))
  except KeyError as e:
      print("Error reading {0}: {1}".format(filename, e))
  image_time = image_time + datetime.timedelta(milliseconds=int(image_millisec))
  return image_time
  \<close>
  The result is the returned time or the exception that leaves the function, with the
  lines printed. \<open>image_time\<close> is \<open>None\<close> while the local variable is unbound.
\<close>

fun exif_time_return :: "datetime option \<Rightarrow> int \<Rightarrow> exn + datetime" where
  "exif_time_return None image_millisec = Inl (UnboundLocalError ''image_time'')"
| "exif_time_return (Some image_time) image_millisec = Inr (image_time + timedelta_milliseconds image_millisec)"

fun exif_time_except :: "filename \<Rightarrow> exn \<Rightarrow> datetime option \<Rightarrow> (exn + datetime) \<times> message list" where
  "exif_time_except filename (ValueError e) image_time =
     (exif_time_return image_time 0, [ErrorReadingExifAt filename e])"
| "exif_time_except filename (KeyError e) image_time =
     (exif_time_return image_time 0, [ErrorReading filename e])"
| "exif_time_except filename e image_time = (Inl e, [])"

definition exif_time :: "(filename \<Rightarrow> exif) \<Rightarrow> filename \<Rightarrow> (exn + datetime) \<times> message list" where
  "exif_time md filename =
     (let m = md filename in
      case date_time_original m of
        Inl e \<Rightarrow> exif_time_except filename e None
      | Inr image_time \<Rightarrow>
          (case sub_sec_time_original m of
             Inl e \<Rightarrow> exif_time_except filename e (Some image_time)
           | Inr image_millisec \<Rightarrow> (exif_time_return (Some image_time) image_millisec, [])))"

section \<open>estimate\_sub\_second\_time\<close>

text \<open>The list comprehension \<^verbatim>\<open>[exif_time(f) for f in files]\<close>.\<close>

fun exif_times :: "(filename \<Rightarrow> exif) \<Rightarrow> filename list \<Rightarrow> (exn + datetime list) \<times> message list" where
  "exif_times md [] = (Inr [], [])"
| "exif_times md (f # files) =
     (case exif_time md f of
        (Inl e, out) \<Rightarrow> (Inl e, out)
      | (Inr m, out) \<Rightarrow>
          (case exif_times md files of
             (Inl e, out') \<Rightarrow> (Inl e, out @ out')
           | (Inr ms, out') \<Rightarrow> (Inr (m # ms), out @ out')))"

text \<open>
  \<^verbatim>\<open>
  for i, f in enumerate(files):
      m = exif_time(f)
      if i == 0:
          smin = m
          smax = m + onesecond
      else:
          m0 = m - T * i
          smin = max(smin, m0)
          smax = min(smax, m0 + onesecond)
  \<close>
  The loop state is the pair \<open>(smin, smax)\<close>, \<open>None\<close> while both are unbound.
\<close>

definition onesecond :: timedelta where
  "onesecond = timedelta_seconds 1"

fun sub_second_loop ::
  "(filename \<Rightarrow> exif) \<Rightarrow> timedelta \<Rightarrow> nat \<Rightarrow> filename list \<Rightarrow> (datetime \<times> datetime) option
     \<Rightarrow> (exn + (datetime \<times> datetime) option) \<times> message list" where
  "sub_second_loop md T i [] bounds = (Inr bounds, [])"
| "sub_second_loop md T i (f # files) bounds =
     (case exif_time md f of
        (Inl e, out) \<Rightarrow> (Inl e, out)
      | (Inr m, out) \<Rightarrow>
          (if i = 0
           then (case sub_second_loop md T (Suc i) files (Some (m, m + onesecond)) of
                   (r, out') \<Rightarrow> (r, out @ out'))
           else (case bounds of
                   None \<Rightarrow> (Inl (UnboundLocalError ''smin''), out)
                 | Some (smin, smax) \<Rightarrow>
                     (let m0 = m - T * int i in
                      case sub_second_loop md T (Suc i) files
                             (Some (max smin m0, min smax (m0 + onesecond))) of
                        (r, out') \<Rightarrow> (r, out @ out')))))"

text \<open>
  \<^verbatim>\<open>
  if interval <= 0.0:
      return [exif_time(f) for f in files]
  onesecond = datetime.timedelta(seconds=1.0)
  T = datetime.timedelta(seconds=interval)
  (the loop)
  if smin > smax:
      print('Interval not compatible with EXIF times')
      return None
  else:
      s = smin + (smax - smin) / 2
      return [s + T * i for i in range(len(files))]
  \<close>
  \<open>Inr None\<close> is the returned \<open>None\<close>, \<open>Inr (Some ts)\<close> a returned list. \<open>T * i\<close>
  multiplies the microseconds of \<open>T\<close>; \<open>(smax - smin) / 2\<close> is the rounded division
  of a \<open>timedelta\<close> by an \<open>int\<close>.
\<close>

definition estimate_sub_second_time ::
  "(filename \<Rightarrow> exif) \<Rightarrow> filename list \<Rightarrow> real \<Rightarrow> (exn + datetime list option) \<times> message list" where
  "estimate_sub_second_time md files interval =
     (if interval \<le> 0
      then (case exif_times md files of
              (Inl e, out) \<Rightarrow> (Inl e, out)
            | (Inr ms, out) \<Rightarrow> (Inr (Some ms), out))
      else (let T = timedelta_seconds interval in
            case sub_second_loop md T 0 files None of
              (Inl e, out) \<Rightarrow> (Inl e, out)
            | (Inr None, out) \<Rightarrow> (Inl (UnboundLocalError ''smin''), out)
            | (Inr (Some (smin, smax)), out) \<Rightarrow>
                (if smin > smax
                 then (Inr None, out @ [IntervalNotCompatible])
                 else (let s = smin + divide_and_round (smax - smin) 2 in
                       (Inr (Some (map (\<lambda>i. s + T * int i) [0..<length files])), out)))))"

section \<open>add\_exif\_using\_timestamp and the main loop\<close>

text \<open>
  \<^verbatim>\<open>
  metadata = pyexiv2.ImageMetadata(filename)
  metadata.read()
  t = time - datetime.timedelta(seconds=offset_time)
  try:
      lat, lon, bearing, elevation = interpolate_lat_lon(points, t)
      bearing = add_bearing_offset(bearing, bearing_offset)
      lat_deg = decimal_to_dms(lat, ["S", "N"])
      lon_deg = decimal_to_dms(lon, ["W", "E"])
      exiv_lat = (make_fraction(lat_deg[0],1), make_fraction(int(lat_deg[1]),1),
                  make_fraction(int(lat_deg[2]*1000000),1000000))
      exiv_lon = (the same of lon_deg)
      exiv_bearing = make_fraction(int(bearing*100),100)
      metadata[...] = ...   (nine tags, and two more when elevation is not None)
      metadata.write()
      if verbose:
          print("Added geodata to: {} ...".format(filename, time, lat, lon, elevation, bearing))
  except ValueError as e:
      print("Skipping {0}: {1}".format(filename, e))
  \<close>
  A stateful function returns the exception that leaves it, if any, and the world it
  leaves behind.
\<close>

definition exiv_dms :: "int \<times> real \<times> real \<times> string \<Rightarrow> tagvalue" where
  "exiv_dms dms =
     (case dms of (d, m, s, r) \<Rightarrow>
        Triple (Fraction d 1) (Fraction (py_int m) 1) (Fraction (py_int (s * 1000000)) 1000000))"

definition dms_ref :: "int \<times> real \<times> real \<times> string \<Rightarrow> string" where
  "dms_ref dms = (case dms of (d, m, s, r) \<Rightarrow> r)"

definition set_elevation :: "real option \<Rightarrow> metadata \<Rightarrow> metadata" where
  "set_elevation elevation metadata =
     (case elevation of
        None \<Rightarrow> metadata
      | Some el \<Rightarrow>
          metadata(''Exif.GPSInfo.GPSAltitude'' \<mapsto> Fraction \<bar>py_int (el * 10)\<bar> 10,
                   ''Exif.GPSInfo.GPSAltitudeRef'' \<mapsto> Str (if el \<ge> 0 then ''0'' else ''1'')))"

definition add_exif_using_timestamp ::
  "geo \<Rightarrow> filename \<Rightarrow> datetime \<Rightarrow> trackpoint list \<Rightarrow> real \<Rightarrow> real \<Rightarrow> bool
     \<Rightarrow> world \<Rightarrow> exn option \<times> world" where
  "add_exif_using_timestamp g filename image_time points offset_time bearing_offset verbose w =
     (let metadata = image_metadata w filename;
          t = image_time - timedelta_seconds offset_time
      in case interpolate_lat_lon g points t of
           Inl (ValueError e) \<Rightarrow> (None, print (Skipping filename e) w)
         | Inl e \<Rightarrow> (Some e, w)
         | Inr (lat, lon, bearing, elevation) \<Rightarrow>
             (let bearing = add_bearing_offset bearing bearing_offset;
                  lat_deg = decimal_to_dms g lat [''S'', ''N''];
                  lon_deg = decimal_to_dms g lon [''W'', ''E''];
                  exiv_lat = exiv_dms lat_deg;
                  exiv_lon = exiv_dms lon_deg;
                  exiv_bearing = Fraction (py_int (bearing * 100)) 100;
                  metadata = metadata
                    (''Exif.GPSInfo.GPSLatitude'' \<mapsto> exiv_lat,
                     ''Exif.GPSInfo.GPSLatitudeRef'' \<mapsto> Str (dms_ref lat_deg),
                     ''Exif.GPSInfo.GPSLongitude'' \<mapsto> exiv_lon,
                     ''Exif.GPSInfo.GPSLongitudeRef'' \<mapsto> Str (dms_ref lon_deg),
                     ''Exif.Image.GPSTag'' \<mapsto> IntV 654,
                     ''Exif.GPSInfo.GPSMapDatum'' \<mapsto> Str ''WGS-84'',
                     ''Exif.GPSInfo.GPSVersionID'' \<mapsto> Str ''2 0 0 0'',
                     ''Exif.GPSInfo.GPSImgDirection'' \<mapsto> exiv_bearing,
                     ''Exif.GPSInfo.GPSImgDirectionRef'' \<mapsto> Str ''T'');
                  metadata = set_elevation elevation metadata;
                  w = w\<lparr>image_metadata := (image_metadata w)(filename := metadata)\<rparr>
              in (None, if verbose
                        then print (AddedGeodata filename image_time lat lon elevation bearing) w
                        else w)))"

text \<open>
  \<^verbatim>\<open>
  for filepath, filetime in zip(file_list, sub_second_times):
      add_exif_using_timestamp(filepath, filetime, gpx, offset_time=args.time_offset,
                               bearing_offset=args.bearing_offset, verbose=args.verbose)
  \<close>
\<close>

fun geotag_loop ::
  "geo \<Rightarrow> trackpoint list \<Rightarrow> real \<Rightarrow> real \<Rightarrow> bool \<Rightarrow> (filename \<times> datetime) list
     \<Rightarrow> world \<Rightarrow> exn option \<times> world" where
  "geotag_loop g points offset_time bearing_offset verbose [] w = (None, w)"
| "geotag_loop g points offset_time bearing_offset verbose ((filepath, filetime) # rest) w =
     (case add_exif_using_timestamp g filepath filetime points offset_time bearing_offset verbose w of
        (Some e, w') \<Rightarrow> (Some e, w')
      | (None, w') \<Rightarrow> geotag_loop g points offset_time bearing_offset verbose rest w')"

text \<open>
  The script body from the estimation on (lines 236 to 250); the file list and the parsed
  arguments are given.
  \<^verbatim>\<open>
  print('Estimating capture time with sub-second precision')
  sub_second_times = estimate_sub_second_time(file_list, args.interval)
  if not sub_second_times:
      sys.exit(1)
  print('Reading GPX file to get track locations')
  gpx = get_lat_lon_time(args.gpx_file, use_localtime)
  print("Starting geotagging of {0} images using {1}.\n".format(len(file_list), args.gpx_file))
  (the loop)
  print("Done geotagging {0} images in {1:.1f} seconds.".format(len(file_list), ...))
  \<close>
  \<open>not sub_second_times\<close> holds for \<open>None\<close> and for the empty list.
\<close>

record args =
  args_time_offset :: real
  args_interval :: real
  args_localtime :: bool
  args_verbose :: bool
  args_bearing_offset :: real

definition prints :: "message list \<Rightarrow> world \<Rightarrow> world" where
  "prints out w = w\<lparr>stdout := stdout w @ out\<rparr>"

definition main :: "geo \<Rightarrow> (filename \<Rightarrow> exif) \<Rightarrow> filename list \<Rightarrow> gpx \<Rightarrow> args \<Rightarrow> world \<Rightarrow> exn option \<times> world" where
  "main g md file_list gpx_file a w =
     (let w = print EstimatingCaptureTime w in
      case estimate_sub_second_time md file_list (args_interval a) of
        (Inl e, out) \<Rightarrow> (Some e, prints out w)
      | (Inr sub_second_times, out) \<Rightarrow>
          (let w = prints out w in
           case sub_second_times of
             None \<Rightarrow> (Some (SystemExit 1), w)
           | Some ts \<Rightarrow>
               (if ts = [] then (Some (SystemExit 1), w)
                else (let w = print ReadingGPX w;
                          use_localtime = (if args_localtime a then True else False)
                      in case get_lat_lon_time g gpx_file use_localtime of
                           Inl e \<Rightarrow> (Some e, w)
                         | Inr gpx \<Rightarrow>
                             (let w = print (StartingGeotagging (length file_list)) w
                              in case geotag_loop g gpx (args_time_offset a) (args_bearing_offset a)
                                        (args_verbose a) (zip file_list ts) w of
                                   (Some e, w) \<Rightarrow> (Some e, w)
                                 | (None, w) \<Rightarrow>
                                     (None, print (DoneGeotagging (length file_list)) w))))))"

section \<open>The feasibility window\<close>

text \<open>
  In the specification's words, over exact seconds:
  \<open>lowerBound = max over i of (m_i - i * interval)\<close> and
  \<open>upperBound = min over i of (m_i - i * interval + 1s)\<close>, for recorded times
  \<open>m_0 .. m_(n-1)\<close>.
\<close>

definition seconds_of :: "datetime \<Rightarrow> real" where
  "seconds_of m = real_of_int m / 1000000"

definition lowerBound :: "datetime list \<Rightarrow> real \<Rightarrow> real" where
  "lowerBound ms interval =
     Max (set (map (\<lambda>i. seconds_of (ms ! i) - real i * interval) [0..<length ms]))"

definition upperBound :: "datetime list \<Rightarrow> real \<Rightarrow> real" where
  "upperBound ms interval =
     Min (set (map (\<lambda>i. seconds_of (ms ! i) - real i * interval + 1) [0..<length ms]))"

text \<open>
  The same window in whole microseconds, for the \<open>timedelta\<close> \<open>T\<close> the code builds from
  the interval.
\<close>

definition window_lower :: "datetime list \<Rightarrow> timedelta \<Rightarrow> datetime" where
  "window_lower ms T = Max (set (map (\<lambda>i. ms ! i - int i * T) [0..<length ms]))"

definition window_upper :: "datetime list \<Rightarrow> timedelta \<Rightarrow> datetime" where
  "window_upper ms T = Min (set (map (\<lambda>i. ms ! i - int i * T + 1000000) [0..<length ms]))"

text \<open>The recorded times of a list of images, when every one of them can be read.\<close>

definition recorded_times :: "(filename \<Rightarrow> exif) \<Rightarrow> filename list \<Rightarrow> datetime list \<Rightarrow> bool" where
  "recorded_times md files ms = (map (\<lambda>f. fst (exif_time md f)) files = map Inr ms)"

text \<open>The per-image window starts of the loop, from index \<open>i\<close> on.\<close>

fun window_starts :: "timedelta \<Rightarrow> nat \<Rightarrow> datetime list \<Rightarrow> datetime list" where
  "window_starts T i [] = []"
| "window_starts T i (m # ms) = (m - T * int i) # window_starts T (Suc i) ms"

text \<open>
  The points a track source yields: every point of every segment of every track, then
  every standalone waypoint.
\<close>

definition track_source_points :: "gpx \<Rightarrow> gpx_point list" where
  "track_source_points gpx_file =
     concat (map segment_points (concat (map track_segments (gpx_tracks gpx_file))))
     @ gpx_waypoints gpx_file"

text \<open>The lines the tag writer prints for one image of the batch.\<close>

definition image_report ::
  "geo \<Rightarrow> trackpoint list \<Rightarrow> real \<Rightarrow> real \<Rightarrow> bool \<Rightarrow> filename \<times> datetime \<Rightarrow> message list" where
  "image_report g points offset_time bearing_offset verbose job =
     (case job of (filepath, filetime) \<Rightarrow>
        (case interpolate_lat_lon g points (filetime - timedelta_seconds offset_time) of
           Inl (ValueError e) \<Rightarrow> [Skipping filepath e]
         | Inl e \<Rightarrow> []
         | Inr (lat, lon, bearing, elevation) \<Rightarrow>
             (if verbose
              then [AddedGeodata filepath filetime lat lon elevation
                      (add_bearing_offset bearing bearing_offset)]
              else [])))"

section \<open>Concrete inputs\<close>

text \<open>
  Images whose capture times are given by a table, with no sub-second part; an image that
  is not in the table has no \<open>DateTimeOriginal\<close> tag.
\<close>

definition example_md :: "(filename \<times> datetime) list \<Rightarrow> filename \<Rightarrow> exif" where
  "example_md table f =
     \<lparr>date_time_original =
        (case map_of table f of
           None \<Rightarrow> Inl (KeyError ''Exif.Photo.DateTimeOriginal'')
         | Some t \<Rightarrow> Inr t),
      sub_sec_time_original = Inr 0\<rparr>"

definition example_files :: "filename list" where
  "example_files = [''a.jpg'', ''b.jpg'', ''c.jpg'']"

definition example_table :: "datetime \<Rightarrow> datetime \<Rightarrow> datetime \<Rightarrow> (filename \<times> datetime) list" where
  "example_table ta tb tc = [(''a.jpg'', ta), (''b.jpg'', tb), (''c.jpg'', tc)]"

text \<open>
  An instance of the three \<open>lib.geo\<close> functions for the concrete inputs (it refuses
  times outside the track and returns the first point otherwise), a track file with two
  track points and one waypoint, a track file with no point at all, one whose two points
  agree in time and place while only one has an elevation, one with an untimed waypoint,
  arguments, and a world in which nothing was printed or written.
\<close>

fun example_interpolate :: "trackpoint list \<Rightarrow> datetime \<Rightarrow> exn + (real \<times> real \<times> real \<times> real option)" where
  "example_interpolate [] t = Inl (OtherError ''IndexError'')"
| "example_interpolate ((t0, lat, lon, el) # ps) t =
     (case (t0, fst (last ((t0, lat, lon, el) # ps))) of
        (Some first, Some final) \<Rightarrow>
          (if t < first \<or> final < t
           then Inl (ValueError ''Time t not in scope of gpx file.'')
           else Inr (lat, lon, 0, el))
      | _ \<Rightarrow> Inl (TypeError ''unsupported operand''))"

definition example_geo :: geo where
  "example_geo =
     \<lparr>interpolate_lat_lon = example_interpolate,
      decimal_to_dms = (\<lambda>v loc. (py_int \<bar>v\<bar>, 0, 0, if v < 0 then loc ! 0 else loc ! 1)),
      utc_to_localtime =
        (\<lambda>t. case t of None \<Rightarrow> Inl (TypeError ''unsupported operand'')
                       | Some u \<Rightarrow> Inr (Some (u + 3600000000)))\<rparr>"

definition example_gpx :: gpx where
  "example_gpx =
     \<lparr>gpx_tracks =
        [\<lparr>track_segments =
            [\<lparr>segment_points =
                [\<lparr>point_time = Some 10000000, point_latitude = 10001 / 1000,
                  point_longitude = 20002 / 1000, point_elevation = Some 110\<rparr>,
                 \<lparr>point_time = Some 0, point_latitude = 10, point_longitude = 20,
                  point_elevation = Some 100\<rparr>]\<rparr>]\<rparr>],
      gpx_waypoints =
        [\<lparr>point_time = Some 5000000, point_latitude = 10, point_longitude = 20,
          point_elevation = None\<rparr>]\<rparr>"

definition empty_gpx :: gpx where
  "empty_gpx = \<lparr>gpx_tracks = [], gpx_waypoints = []\<rparr>"

definition tie_gpx :: gpx where
  "tie_gpx =
     \<lparr>gpx_tracks =
        [\<lparr>track_segments =
            [\<lparr>segment_points =
                [\<lparr>point_time = Some 5000000, point_latitude = 10, point_longitude = 20,
                  point_elevation = Some 100\<rparr>]\<rparr>]\<rparr>],
      gpx_waypoints =
        [\<lparr>point_time = Some 5000000, point_latitude = 10, point_longitude = 20,
          point_elevation = None\<rparr>]\<rparr>"

definition untimed_gpx :: gpx where
  "untimed_gpx =
     \<lparr>gpx_tracks =
        [\<lparr>track_segments =
            [\<lparr>segment_points =
                [\<lparr>point_time = Some 5000000, point_latitude = 10, point_longitude = 20,
                  point_elevation = Some 100\<rparr>]\<rparr>]\<rparr>],
      gpx_waypoints =
        [\<lparr>point_time = None, point_latitude = 11, point_longitude = 21,
          point_elevation = Some 100\<rparr>]\<rparr>"

definition example_args :: args where
  "example_args =
     \<lparr>args_time_offset = 0, args_interval = 0, args_localtime = False, args_verbose = False,
      args_bearing_offset = 0\<rparr>"

definition empty_world :: world where
  "empty_world = \<lparr>stdout = [], image_metadata = (\<lambda>f. Map.empty)\<rparr>"

text \<open>The loaded example track.\<close>

definition example_points :: "trackpoint list" where
  "example_points =
     [(Some 0, 10, 20, Some 100), (Some 5000000, 10, 20, None),
      (Some 10000000, 10001 / 1000, 20002 / 1000, Some 110)]"

text \<open>Lists of two and of four images.\<close>

definition two_files :: "filename list" where
  "two_files = [''a.jpg'', ''b.jpg'']"

definition four_files :: "filename list" where
  "four_files = [''a.jpg'', ''b.jpg'', ''c.jpg'', ''d.jpg'']"

definition four_table :: "datetime \<Rightarrow> datetime \<Rightarrow> datetime \<Rightarrow> datetime \<Rightarrow> (filename \<times> datetime) list" where
  "four_table ta tb tc td = [(''a.jpg'', ta), (''b.jpg'', tb), (''c.jpg'', tc), (''d.jpg'', td)]"

text \<open>
  A batch of two images, the first taken long after the example track ends, and the
  capture-time tags of a folder in which only \<open>b.jpg\<close> has a \<open>DateTimeOriginal\<close>.
\<close>

definition skip_jobs :: "(filename \<times> datetime) list" where
  "skip_jobs = [(''a.jpg'', 100000000), (''b.jpg'', 5000000)]"

definition missing_date_md :: "filename \<Rightarrow> exif" where
  "missing_date_md = example_md [(''b.jpg'', 5000000)]"

section \<open>Bearing normalisation\<close>

lemma py_mod_360_range: "0 \<le> py_mod x 360 \<and> py_mod x 360 < 360"
proof -
  have lo: "of_int \<lfloor>x / 360\<rfloor> \<le> x / 360" by (rule of_int_floor_le)
  have hi: "x / 360 < of_int \<lfloor>x / 360\<rfloor> + 1" by linarith
  show ?thesis unfolding py_mod_def using lo hi by linarith
qed

lemma add_bearing_offset_nonneg_sum:
  "0 \<le> b + o' \<Longrightarrow> 0 \<le> add_bearing_offset b o' \<and> add_bearing_offset b o' < 360"
  using py_mod_360_range [of "b + o'"] by (simp add: add_bearing_offset_def Let_def)

lemma add_bearing_offset_negative_sum:
  "b + o' < 0 \<Longrightarrow> add_bearing_offset b o' \<le> 0"
  using py_mod_360_range [of "- (b + o')"] by (simp add: add_bearing_offset_def Let_def)

text \<open>
  C1. The docstring promises a result \<open>0 <= r < 360\<close> for every bearing and offset.
  For a negative sum the code negates a remainder that is already non-negative, so the
  result is never positive: bearing 10 with offset -20 gives -10, not 350, and
  normalising -10 with offsets 0 and 360 gives -10 and 350.
\<close>

theorem add_bearing_offset_negative_result:
  "add_bearing_offset 10 (-20) = -10
   \<and> \<not> (0 \<le> add_bearing_offset 10 (-20))
   \<and> add_bearing_offset (-10) 0 = -10
   \<and> add_bearing_offset (-10) 360 = 350"
  by (simp add: add_bearing_offset_def py_mod_def Let_def)


section \<open>Sub-second estimation\<close>


lemma recorded_times_Cons:
  "recorded_times md (f # files) ms \<longleftrightarrow>
     (\<exists>m ms'. ms = m # ms' \<and> fst (exif_time md f) = Inr m \<and> recorded_times md files ms')"
  by (cases ms) (auto simp: recorded_times_def)

lemma recorded_times_Nil: "recorded_times md [] ms \<longleftrightarrow> ms = []"
  by (auto simp: recorded_times_def)

lemma exif_times_recorded:
  "recorded_times md files ms \<Longrightarrow> fst (exif_times md files) = Inr ms"
proof (induction files arbitrary: ms)
  case Nil
  then show ?case by (simp add: recorded_times_Nil)
next
  case (Cons f files)
  then obtain m ms' where ms: "ms = m # ms'" and m: "fst (exif_time md f) = Inr m"
    and rest: "recorded_times md files ms'"
    by (auto simp: recorded_times_Cons)
  from Cons.IH [OF rest] m ms show ?case
    by (auto split: prod.splits sum.splits)
qed

lemma py_round_of_int: "py_round (of_int n) = n"
  by (simp add: py_round_def)

lemma onesecond_eq: "onesecond = 1000000"
  using py_round_of_int [of 1000000] by (simp add: onesecond_def timedelta_seconds_def)

lemma sub_second_loop_recorded:
  "recorded_times md files ms \<Longrightarrow> 0 < i \<Longrightarrow>
   fst (sub_second_loop md T i files (Some (lo, hi))) =
     Inr (Some (fold max (window_starts T i ms) lo,
                fold min (map (\<lambda>x. x + 1000000) (window_starts T i ms)) hi))"
proof (induction files arbitrary: ms i lo hi)
  case Nil
  then show ?case by (simp add: recorded_times_Nil)
next
  case (Cons f files)
  then obtain m ms' where ms: "ms = m # ms'" and m: "fst (exif_time md f) = Inr m"
    and rest: "recorded_times md files ms'"
    by (auto simp: recorded_times_Cons)
  from Cons.IH [OF rest, of "Suc i"] m ms Cons.prems(2) show ?case
    by (simp add: onesecond_eq Let_def case_prod_beta max.commute min.commute)
qed

lemma window_starts_nth:
  "window_starts T i ms = map (\<lambda>k. ms ! k - int (i + k) * T) [0..<length ms]"
proof (induction ms arbitrary: i)
  case Nil
  then show ?case by simp
next
  case (Cons m ms)
  show ?case
    by (simp add: Cons.IH map_upt_Suc mult.commute del: upt_Suc)
qed

lemma window_lower_starts: "window_lower ms T = Max (set (window_starts T 0 ms))"
  by (simp add: window_lower_def window_starts_nth)

lemma window_upper_starts:
  "window_upper ms T = Min (set (map (\<lambda>x. x + 1000000) (window_starts T 0 ms)))"
  by (simp add: window_upper_def window_starts_nth comp_def)

lemma sub_second_loop_window:
  assumes "recorded_times md files ms" and "files \<noteq> []"
  shows "fst (sub_second_loop md T 0 files None) = Inr (Some (window_lower ms T, window_upper ms T))"
proof -
  from assms obtain f fs where files: "files = f # fs" by (cases files) auto
  with assms obtain m ms' where ms: "ms = m # ms'" and m: "fst (exif_time md f) = Inr m"
    and rest: "recorded_times md fs ms'"
    by (auto simp: recorded_times_Cons)
  have "fst (sub_second_loop md T 0 files None) =
          fst (sub_second_loop md T (Suc 0) fs (Some (m, m + 1000000)))"
    using m by (simp add: files onesecond_eq case_prod_beta)
  also have "\<dots> = Inr (Some (fold max (window_starts T (Suc 0) ms') m,
                fold min (map (\<lambda>x. x + 1000000) (window_starts T (Suc 0) ms')) (m + 1000000)))"
    by (rule sub_second_loop_recorded [OF rest]) simp
  also have "\<dots> = Inr (Some (Max (set (m # window_starts T (Suc 0) ms')),
                Min (set ((m + 1000000) # map (\<lambda>x. x + 1000000) (window_starts T (Suc 0) ms')))))"
    by (simp only: Max.set_eq_fold Min.set_eq_fold)
  also have "\<dots> = Inr (Some (window_lower ms T, window_upper ms T))"
    by (simp add: window_lower_starts window_upper_starts ms)
  finally show ?thesis .
qed

lemma estimate_window:
  assumes "0 < interval" and "files \<noteq> []" and "recorded_times md files ms"
  shows "fst (estimate_sub_second_time md files interval) =
           (if window_lower ms (timedelta_seconds interval) > window_upper ms (timedelta_seconds interval)
            then Inr None
            else Inr (Some (map (\<lambda>i. window_lower ms (timedelta_seconds interval)
                      + divide_and_round (window_upper ms (timedelta_seconds interval)
                                          - window_lower ms (timedelta_seconds interval)) 2
                      + timedelta_seconds interval * int i)
                   [0..<length files])))"
proof -
  obtain r out where loop: "sub_second_loop md (timedelta_seconds interval) 0 files None = (r, out)"
    by (cases "sub_second_loop md (timedelta_seconds interval) 0 files None")
  with sub_second_loop_window [OF assms(3) assms(2), of "timedelta_seconds interval"]
  have r: "r = Inr (Some (window_lower ms (timedelta_seconds interval),
                          window_upper ms (timedelta_seconds interval)))" by simp
  show ?thesis using assms(1)
    by (simp add: estimate_sub_second_time_def loop r Let_def)
qed

lemma estimate_window_signal:
  assumes "0 < interval" and "files \<noteq> []" and "recorded_times md files ms"
    and "window_lower ms (timedelta_seconds interval) > window_upper ms (timedelta_seconds interval)"
  shows "IntervalNotCompatible \<in> set (snd (estimate_sub_second_time md files interval))"
proof -
  obtain r out where loop: "sub_second_loop md (timedelta_seconds interval) 0 files None = (r, out)"
    by (cases "sub_second_loop md (timedelta_seconds interval) 0 files None")
  with sub_second_loop_window [OF assms(3) assms(2), of "timedelta_seconds interval"]
  have r: "r = Inr (Some (window_lower ms (timedelta_seconds interval),
                          window_upper ms (timedelta_seconds interval)))" by simp
  show ?thesis using assms(1) assms(4)
    by (simp add: estimate_sub_second_time_def loop r Let_def)
qed

lemma divide_and_round_2:
  "d - 1 \<le> 2 * divide_and_round d 2 \<and> 2 * divide_and_round d 2 \<le> d + 1"
  unfolding divide_and_round_def Let_def by (simp; presburger)

lemma td_a: "timedelta_seconds (5000001 / 2500000) = 2000000"
  by (simp add: timedelta_seconds_def py_round_def Let_def)

lemma td_b: "timedelta_seconds (3333333 / 5000000) = 666667"
  by (simp add: timedelta_seconds_def py_round_def Let_def)

lemma td_c: "timedelta_seconds 2 = 2000000"
  by (simp add: timedelta_seconds_def py_round_def Let_def)

lemma td_d: "timedelta_seconds (3 / 2) = 1500000"
  by (simp add: timedelta_seconds_def py_round_def Let_def)


lemma example_recorded_times:
  "recorded_times (example_md (example_table ta tb tc)) example_files [ta, tb, tc]"
  by (simp add: recorded_times_def example_files_def example_md_def example_table_def exif_time_def
      timedelta_milliseconds_def)

lemma window_lower_3: "window_lower [a, b, c] T = max a (max (b - T) (c - 2 * T))"
  by (simp add: window_lower_def upt_rec [of 0] upt_rec [of 1] upt_rec [of 2] numeral_3_eq_3)

lemma window_upper_3:
  "window_upper [a, b, c] T = min (a + 1000000) (min (b - T + 1000000) (c - 2 * T + 1000000))"
  by (simp add: window_upper_def upt_rec [of 0] upt_rec [of 1] upt_rec [of 2] numeral_3_eq_3)

lemma lowerBound_2: "lowerBound [a, b] x = max (seconds_of a) (seconds_of b - x)"
  by (simp add: lowerBound_def upt_rec [of 0] upt_rec [of 1] numeral_2_eq_2)

lemma upperBound_2: "upperBound [a, b] x = min (seconds_of a + 1) (seconds_of b - x + 1)"
  by (simp add: upperBound_def upt_rec [of 0] upt_rec [of 1] numeral_2_eq_2)

lemma lowerBound_4:
  "lowerBound [a, b, c, d] x =
     max (seconds_of a) (max (seconds_of b - x) (max (seconds_of c - 2 * x) (seconds_of d - 3 * x)))"
  by (simp add: lowerBound_def upt_rec [of 0] upt_rec [of 1] upt_rec [of 2] upt_rec [of 3]
      eval_nat_numeral)

lemma upperBound_4:
  "upperBound [a, b, c, d] x =
     min (seconds_of a + 1) (min (seconds_of b - x + 1)
       (min (seconds_of c - 2 * x + 1) (seconds_of d - 3 * x + 1)))"
  by (simp add: upperBound_def upt_rec [of 0] upt_rec [of 1] upt_rec [of 2] upt_rec [of 3]
      eval_nat_numeral)

lemma two_recorded_times:
  "recorded_times (example_md (example_table ta tb tc)) two_files [ta, tb]"
  by (simp add: recorded_times_def two_files_def example_md_def example_table_def exif_time_def
      timedelta_milliseconds_def)

lemma four_recorded_times:
  "recorded_times (example_md (four_table ta tb tc td)) four_files [ta, tb, tc, td]"
  by (simp add: recorded_times_def four_files_def example_md_def four_table_def exif_time_def
      timedelta_milliseconds_def)

lemma estimate_rounded_interval_two:
  "estimate_sub_second_time (example_md (example_table 0 1000000 0)) two_files (20000004 / 10000000)
     = (Inr (Some [0, 2000000]), [])"
  by (simp add: estimate_sub_second_time_def td_a two_files_def example_md_def example_table_def
      exif_time_def timedelta_milliseconds_def onesecond_eq Let_def divide_and_round_def
      upt_rec [of 0] upt_rec [of 1] numeral_2_eq_2)

lemma estimate_rounded_interval_four:
  "estimate_sub_second_time (example_md (four_table 0 0 1000000 1000000)) four_files (6666666 / 10000000)
     = (Inr None, [IntervalNotCompatible])"
  by (simp add: estimate_sub_second_time_def td_b four_files_def example_md_def four_table_def
      exif_time_def timedelta_milliseconds_def onesecond_eq Let_def)

lemma td_e: "timedelta_seconds (333333 / 1000000) = 333333"
  by (simp add: timedelta_seconds_def py_round_def Let_def)

lemma td_f: "timedelta_seconds (1 / 10000000) = 0"
  by (simp add: timedelta_seconds_def py_round_def Let_def)

lemma estimate_rounded_midpoint_four:
  "estimate_sub_second_time (example_md (four_table 0 0 0 1000000)) four_files (333333 / 1000000)
     = (Inr (Some [166667, 500000, 833333, 1166666]), [])"
  by (simp add: estimate_sub_second_time_def td_e four_files_def example_md_def four_table_def
      exif_time_def timedelta_milliseconds_def onesecond_eq Let_def divide_and_round_def
      upt_rec [of 0] upt_rec [of 1] upt_rec [of 2] upt_rec [of 3] eval_nat_numeral)

lemma estimate_zero_timedelta_two:
  "estimate_sub_second_time (example_md (example_table 0 0 0)) two_files (1 / 10000000)
     = (Inr (Some [500000, 500000]), [])"
  by (simp add: estimate_sub_second_time_def td_f two_files_def example_md_def example_table_def
      exif_time_def timedelta_milliseconds_def onesecond_eq Let_def divide_and_round_def
      upt_rec [of 0] upt_rec [of 1] numeral_2_eq_2)

text \<open>
  C3 as stated fails: with recorded times 0 s and 1 s and the interval 2.0000004 the
  exact window is empty, yet the estimator returns the times 0 s and 2 s; the
  \<open>timedelta\<close> it works with is 2 s.
\<close>

theorem estimate_exact_window_counterexample:
  "(0::real) < 20000004 / 10000000
   \<and> recorded_times (example_md (example_table 0 1000000 0)) two_files [0, 1000000]
   \<and> upperBound [0, 1000000] (20000004 / 10000000) < lowerBound [0, 1000000] (20000004 / 10000000)
   \<and> estimate_sub_second_time (example_md (example_table 0 1000000 0)) two_files (20000004 / 10000000)
       = (Inr (Some [0, 2000000]), [])"
  using two_recorded_times [of 0 1000000 0] estimate_rounded_interval_two
  by (simp add: lowerBound_2 upperBound_2 seconds_of_def)

text \<open>
  C3, amended. For recorded capture times \<open>m_0 .. m_(n-1)\<close> (at least one image) and an
  interval above zero, with \<open>T\<close> the interval rounded to whole microseconds, the
  estimator fails, printing its message and returning \<open>None\<close> instead of a list,
  exactly when the largest \<open>m_i - i * T\<close> exceeds the smallest \<open>m_i - i * T + 1s\<close>. The
  recorded times 0, 0, 5 with interval 2 are the witness.
\<close>

theorem estimate_fails_iff_window_empty:
  assumes "0 < interval" and "files \<noteq> []" and "recorded_times md files ms"
  shows "(fst (estimate_sub_second_time md files interval) = Inr None
          \<and> IntervalNotCompatible \<in> set (snd (estimate_sub_second_time md files interval)))
         \<longleftrightarrow> window_upper ms (timedelta_seconds interval) < window_lower ms (timedelta_seconds interval)"
  using estimate_window [OF assms] estimate_window_signal [OF assms] by auto

theorem estimate_fails_iff_window_empty_witness:
  "(0::real) < 2 \<and> example_files \<noteq> []
   \<and> recorded_times (example_md (example_table 0 0 5000000)) example_files [0, 0, 5000000]
   \<and> window_upper [0, 0, 5000000] (timedelta_seconds 2) < window_lower [0, 0, 5000000] (timedelta_seconds 2)
   \<and> fst (estimate_sub_second_time (example_md (example_table 0 0 5000000)) example_files 2) = Inr None
   \<and> IntervalNotCompatible
       \<in> set (snd (estimate_sub_second_time (example_md (example_table 0 0 5000000)) example_files 2))"
proof -
  have pos: "(0::real) < 2" by simp
  have ne: "example_files \<noteq> []" by (simp add: example_files_def)
  have win: "window_upper [0, 0, 5000000] (timedelta_seconds 2) < window_lower [0, 0, 5000000] (timedelta_seconds 2)"
    by (simp add: window_lower_3 window_upper_3 td_c)
  show ?thesis
    using estimate_fails_iff_window_empty [OF pos ne example_recorded_times [of 0 0 5000000]] win ne
      example_recorded_times [of 0 0 5000000]
    by simp
qed

text \<open>
  C4 as stated fails: with recorded times 0, 0, 1, 1 s and the interval 0.6666666 the
  exact window is not empty, yet the estimator returns \<open>None\<close>; with 0, 0, 0, 1 s and
  0.333333 it returns a list whose first entry, 0.166667 s, is not the midpoint
  0.1666675 s.
\<close>

theorem estimate_exact_midpoint_counterexample:
  "(0::real) < 6666666 / 10000000
   \<and> recorded_times (example_md (four_table 0 0 1000000 1000000)) four_files [0, 0, 1000000, 1000000]
   \<and> lowerBound [0, 0, 1000000, 1000000] (6666666 / 10000000)
       \<le> upperBound [0, 0, 1000000, 1000000] (6666666 / 10000000)
   \<and> fst (estimate_sub_second_time (example_md (four_table 0 0 1000000 1000000)) four_files
        (6666666 / 10000000)) = Inr None
   \<and> lowerBound [0, 0, 0, 1000000] (333333 / 1000000) \<le> upperBound [0, 0, 0, 1000000] (333333 / 1000000)
   \<and> fst (estimate_sub_second_time (example_md (four_table 0 0 0 1000000)) four_files
        (333333 / 1000000)) = Inr (Some [166667, 500000, 833333, 1166666])
   \<and> seconds_of 166667
       \<noteq> (lowerBound [0, 0, 0, 1000000] (333333 / 1000000)
          + upperBound [0, 0, 0, 1000000] (333333 / 1000000)) / 2"
  using four_recorded_times [of 0 0 1000000 1000000] estimate_rounded_interval_four
    estimate_rounded_midpoint_four
  by (simp add: lowerBound_4 upperBound_4 seconds_of_def)


lemma midpoint_close:
  fixes lo up h :: int
  assumes "up - lo - 1 \<le> 2 * h" and "2 * h \<le> up - lo + 1"
  shows "\<bar>2 * (lo + h) - (lo + up)\<bar> \<le> 1"
  using assms by (simp add: abs_le_iff)

lemma estimate_window_sequence:
  assumes "0 < interval" and "files \<noteq> []" and "recorded_times md files ms"
    and "window_lower ms (timedelta_seconds interval) \<le> window_upper ms (timedelta_seconds interval)"
  shows "\<exists>base ts. fst (estimate_sub_second_time md files interval) = Inr (Some ts)
           \<and> length ts = length files
           \<and> (\<forall>i < length files. ts ! i = base + int i * timedelta_seconds interval)
           \<and> base = window_lower ms (timedelta_seconds interval)
                    + divide_and_round (window_upper ms (timedelta_seconds interval)
                                        - window_lower ms (timedelta_seconds interval)) 2
           \<and> \<bar>2 * base - (window_lower ms (timedelta_seconds interval)
                            + window_upper ms (timedelta_seconds interval))\<bar> \<le> 1"
proof -
  let ?T = "timedelta_seconds interval"
  let ?lo = "window_lower ms ?T" and ?up = "window_upper ms ?T"
  let ?base = "?lo + divide_and_round (?up - ?lo) 2"
  let ?ts = "map (\<lambda>i. ?base + ?T * int i) [0..<length files]"
  have a: "fst (estimate_sub_second_time md files interval) = Inr (Some ?ts)"
    using estimate_window [OF assms(1-3)] assms(4) by simp
  have b: "length ?ts = length files" by simp
  have c: "\<forall>i < length files. ?ts ! i = ?base + int i * ?T" by (simp add: mult.commute)
  have "?up - ?lo - 1 \<le> 2 * divide_and_round (?up - ?lo) 2"
    and "2 * divide_and_round (?up - ?lo) 2 \<le> ?up - ?lo + 1"
    using divide_and_round_2 [of "?up - ?lo"] by simp_all
  then have d: "\<bar>2 * ?base - (?lo + ?up)\<bar> \<le> 1" by (rule midpoint_close)
  from a b c d show ?thesis by blast
qed

text \<open>
  C4, amended. For a non-empty sequence of recorded capture times and an interval above
  zero, with \<open>T\<close> the interval rounded to whole microseconds: when the window
  \<open>[lowerBound, upperBound]\<close> computed with \<open>T\<close> is not empty, the estimator returns a
  list as long as the input whose entry \<open>i\<close> is \<open>base + i * T\<close>, where \<open>base\<close> is
  \<open>lowerBound\<close> plus half the width of the window rounded to a whole microsecond, at
  most half a microsecond from the midpoint.
\<close>

theorem estimate_midpoint:
  assumes "0 < interval" and "files \<noteq> []" and "recorded_times md files ms"
    and "window_lower ms (timedelta_seconds interval) \<le> window_upper ms (timedelta_seconds interval)"
  shows "\<exists>base ts. fst (estimate_sub_second_time md files interval) = Inr (Some ts)
           \<and> length ts = length files
           \<and> (\<forall>i < length files. ts ! i = base + int i * timedelta_seconds interval)
           \<and> base = window_lower ms (timedelta_seconds interval)
                    + divide_and_round (window_upper ms (timedelta_seconds interval)
                                        - window_lower ms (timedelta_seconds interval)) 2
           \<and> \<bar>2 * base - (window_lower ms (timedelta_seconds interval)
                            + window_upper ms (timedelta_seconds interval))\<bar> \<le> 1"
  using assms by (rule estimate_window_sequence)

theorem estimate_midpoint_witness:
  "(0::real) < 3 / 2 \<and> example_files \<noteq> []
   \<and> recorded_times (example_md (example_table 0 1000000 3000000)) example_files [0, 1000000, 3000000]
   \<and> window_lower [0, 1000000, 3000000] (timedelta_seconds (3 / 2)) = 0
   \<and> window_upper [0, 1000000, 3000000] (timedelta_seconds (3 / 2)) = 500000
   \<and> (\<exists>ts. fst (estimate_sub_second_time (example_md (example_table 0 1000000 3000000)) example_files (3 / 2))
             = Inr (Some ts)
         \<and> length ts = length example_files
         \<and> ts ! 0 = 250000 \<and> ts ! 1 = 1750000 \<and> ts ! 2 = 3250000)"
proof -
  let ?T = "timedelta_seconds (3 / 2)"
  have pos: "(0::real) < 3 / 2" by simp
  have ne: "example_files \<noteq> []" by (simp add: example_files_def)
  have lo: "window_lower [0, 1000000, 3000000] ?T = 0" by (simp add: window_lower_3 td_d)
  have up: "window_upper [0, 1000000, 3000000] ?T = 500000" by (simp add: window_upper_3 td_d)
  have win: "window_lower [0, 1000000, 3000000] ?T \<le> window_upper [0, 1000000, 3000000] ?T"
    by (simp add: lo up)
  from estimate_midpoint [OF pos ne example_recorded_times [of 0 1000000 3000000] win]
  obtain base ts where ts: "fst (estimate_sub_second_time (example_md (example_table 0 1000000 3000000))
         example_files (3 / 2)) = Inr (Some ts)"
    and len: "length ts = length example_files"
    and nth: "\<forall>i < length example_files. ts ! i = base + int i * ?T"
    and base: "base = window_lower [0, 1000000, 3000000] ?T
                 + divide_and_round (window_upper [0, 1000000, 3000000] ?T
                                     - window_lower [0, 1000000, 3000000] ?T) 2"
    by blast
  have l3: "length example_files = 3" by (simp add: example_files_def)
  have b: "base = 250000" by (simp add: base lo up divide_and_round_def)
  from nth have "ts ! 0 = 250000" "ts ! 1 = 1750000" "ts ! 2 = 3250000"
    by (simp_all add: l3 b td_d)
  with ts len pos ne lo up example_recorded_times [of 0 1000000 3000000] show ?thesis by blast
qed

text \<open>
  C5. With an interval of zero or below, the estimator returns the recorded capture
  times as they are.
\<close>

theorem estimate_no_refinement:
  assumes "interval \<le> 0" and "recorded_times md files ms"
  shows "fst (estimate_sub_second_time md files interval) = Inr (Some ms)"
  using exif_times_recorded [OF assms(2)] assms(1)
  by (simp add: estimate_sub_second_time_def case_prod_beta split: sum.splits)

theorem estimate_no_refinement_witness:
  "(0::real) \<le> 0
   \<and> recorded_times (example_md (example_table 0 1000000 3000000)) example_files [0, 1000000, 3000000]
   \<and> fst (estimate_sub_second_time (example_md (example_table 0 1000000 3000000)) example_files 0)
       = Inr (Some [0, 1000000, 3000000])"
  using estimate_no_refinement [OF _ example_recorded_times [of 0 1000000 3000000], of 0]
    example_recorded_times [of 0 1000000 3000000]
  by simp

text \<open>
  C10. On the empty image list with an interval above zero the loop body never runs,
  \<open>smin\<close> and \<open>smax\<close> stay unbound, and the comparison after the loop raises the
  unbound-variable error: the estimator returns no value.
\<close>

theorem estimate_empty_unbound:
  assumes "0 < interval"
  shows "estimate_sub_second_time md [] interval = (Inl (UnboundLocalError ''smin''), [])"
  using assms by (simp add: estimate_sub_second_time_def)

theorem estimate_empty_unbound_witness:
  "(0::real) < 2
   \<and> estimate_sub_second_time (example_md (example_table 0 1000000 3000000)) [] 2
       = (Inl (UnboundLocalError ''smin''), [])"
  using estimate_empty_unbound [of 2 "example_md (example_table 0 1000000 3000000)"] by simp

lemma floor_window_bounds:
  fixes base :: real and T :: int and n :: nat
  assumes n: "0 < n"
  defines "ms \<equiv> map (\<lambda>i. 1000000 * \<lfloor>base + real i * seconds_of T\<rfloor>) [0..<n]"
  shows "real_of_int (window_lower ms T) \<le> base * 1000000"
    and "base * 1000000 < real_of_int (window_upper ms T)"
    and "window_upper ms T \<le> window_lower ms T + 1000000"
proof -
  let ?lows = "set (map (\<lambda>i. ms ! i - int i * T) [0..<length ms])"
  let ?ups = "set (map (\<lambda>i. ms ! i - int i * T + 1000000) [0..<length ms])"
  have len: "length ms = n" by (simp add: ms_def)
  have nth: "ms ! i = 1000000 * \<lfloor>base + real i * seconds_of T\<rfloor>" if "i < n" for i
    using that by (simp add: ms_def)
  have fin: "finite ?lows" "finite ?ups" by simp_all
  have ne: "?lows \<noteq> {}" "?ups \<noteq> {}" using n by (simp_all add: len)
  have low: "real_of_int a \<le> base * 1000000" if "a \<in> ?lows" for a
  proof -
    from that obtain i where i: "i < n" and a: "a = ms ! i - int i * T" by (auto simp: len)
    define x where "x = base + real i * seconds_of T"
    have "real_of_int \<lfloor>x\<rfloor> \<le> x" by (rule of_int_floor_le)
    moreover have "x * 1000000 = base * 1000000 + real i * real_of_int T"
      by (simp add: x_def seconds_of_def algebra_simps)
    ultimately have "1000000 * real_of_int \<lfloor>x\<rfloor> \<le> base * 1000000 + real i * real_of_int T"
      by linarith
    with a nth [OF i] show ?thesis by (simp add: x_def)
  qed
  have up: "base * 1000000 < real_of_int a" if "a \<in> ?ups" for a
  proof -
    from that obtain i where i: "i < n" and a: "a = ms ! i - int i * T + 1000000" by (auto simp: len)
    define x where "x = base + real i * seconds_of T"
    have "x < real_of_int \<lfloor>x\<rfloor> + 1" by linarith
    moreover have "x * 1000000 = base * 1000000 + real i * real_of_int T"
      by (simp add: x_def seconds_of_def algebra_simps)
    ultimately have "base * 1000000 + real i * real_of_int T < 1000000 * real_of_int \<lfloor>x\<rfloor> + 1000000"
      by linarith
    with a nth [OF i] show ?thesis by (simp add: x_def)
  qed
  from Max_in [OF fin(1) ne(1)] low show "real_of_int (window_lower ms T) \<le> base * 1000000"
    unfolding window_lower_def by blast
  from Min_in [OF fin(2) ne(2)] up show "base * 1000000 < real_of_int (window_upper ms T)"
    unfolding window_upper_def by blast
  have "ms ! 0 \<in> ?lows" using n by (auto simp: len intro!: image_eqI [where x = 0])
  then have a: "ms ! 0 \<le> window_lower ms T"
    unfolding window_lower_def using Max_ge [OF fin(1)] by blast
  have "ms ! 0 + 1000000 \<in> ?ups" using n by (auto simp: len intro!: image_eqI [where x = 0])
  then have b: "window_upper ms T \<le> ms ! 0 + 1000000"
    unfolding window_upper_def using Min_le [OF fin(2)] by blast
  from a b show "window_upper ms T \<le> window_lower ms T + 1000000" by simp
qed

text \<open>
  C6, amended. With \<open>T\<close> the interval rounded to whole microseconds (the interval itself
  when that is a whole number of microseconds): when the recorded times are
  \<open>floor (base + i * T)\<close> for \<open>i = 0 .. n-1\<close>, with \<open>n\<close> at least 1 and the interval
  above zero, the estimator succeeds; its output is \<open>base' + i * T\<close> for a \<open>base'\<close> at
  most half a second from \<open>base\<close>, and consecutive entries differ by exactly \<open>T\<close>.
\<close>

theorem estimate_recovers_base:
  assumes "0 < interval" and "files \<noteq> []"
    and "recorded_times md files
           (map (\<lambda>i. 1000000 * \<lfloor>base + real i * seconds_of (timedelta_seconds interval)\<rfloor>)
              [0..<length files])"
  shows "\<exists>base' ts. fst (estimate_sub_second_time md files interval) = Inr (Some ts)
           \<and> length ts = length files
           \<and> (\<forall>i < length files. ts ! i = base' + int i * timedelta_seconds interval)
           \<and> \<bar>seconds_of base' - base\<bar> \<le> 1 / 2
           \<and> (\<forall>i. Suc i < length files \<longrightarrow> ts ! Suc i - ts ! i = timedelta_seconds interval)"
proof -
  let ?T = "timedelta_seconds interval"
  let ?ms = "map (\<lambda>i. 1000000 * \<lfloor>base + real i * seconds_of ?T\<rfloor>) [0..<length files]"
  let ?lo = "window_lower ?ms ?T" and ?up = "window_upper ?ms ?T"
  from assms(2) have n: "0 < length files" by simp
  note b = floor_window_bounds [OF n, of base ?T]
  from b(1) b(2) have "real_of_int ?lo < real_of_int ?up" by linarith
  then have win: "?lo \<le> ?up" by simp
  from estimate_window_sequence [OF assms(1) assms(2) assms(3) win]
  obtain base' ts where ts: "fst (estimate_sub_second_time md files interval) = Inr (Some ts)"
    and len: "length ts = length files"
    and nth: "\<forall>i < length files. ts ! i = base' + int i * ?T"
    and mid: "\<bar>2 * base' - (?lo + ?up)\<bar> \<le> 1"
    by blast
  from mid b(3) have "2 * base' \<le> 2 * ?lo + 1000001" and "2 * ?up - 1000001 \<le> 2 * base'"
    by linarith+
  then have "base' \<le> ?lo + 500000" and "?up - 500000 \<le> base'" by linarith+
  then have "real_of_int base' \<le> real_of_int ?lo + 500000"
    and "real_of_int ?up - 500000 \<le> real_of_int base'"
    by linarith+
  with b(1) b(2) have "\<bar>real_of_int base' - base * 1000000\<bar> \<le> 500000" by linarith
  then have close: "\<bar>seconds_of base' - base\<bar> \<le> 1 / 2"
    by (simp add: seconds_of_def abs_le_iff field_simps)
  have step: "ts ! Suc i - ts ! i = ?T" if "Suc i < length files" for i
  proof -
    from that nth have "ts ! Suc i = base' + int (Suc i) * ?T" and "ts ! i = base' + int i * ?T"
      by simp_all
    then show ?thesis by (simp add: algebra_simps)
  qed
  from ts len nth close step show ?thesis by blast
qed





lemma floor_times_four: "map (\<lambda>i. 1000000 * \<lfloor>0 + real i * (6666666 / 10000000)\<rfloor>) [0..<length four_files]
       = [0, 0, 1000000, 1000000]"
proof -
  have l: "[0..<length four_files] = [0, 1, 2, 3]"
    by (simp add: four_files_def upt_rec [of 0] upt_rec [of 1] upt_rec [of 2] upt_rec [of 3]
        eval_nat_numeral)
  show ?thesis unfolding l by simp
qed

lemma floor_times_two: "map (\<lambda>i. 1000000 * \<lfloor>0 + real i * (1 / 10000000)\<rfloor>) [0..<length two_files] = [0, 0]"
proof -
  have l: "[0..<length two_files] = [0, 1]"
    by (simp add: two_files_def upt_rec [of 0] upt_rec [of 1] numeral_2_eq_2)
  show ?thesis unfolding l by simp
qed


lemma floor_times_example: "map (\<lambda>i. 1000000 * \<lfloor>3 / 10 + real i * seconds_of (timedelta_seconds (3 / 2))\<rfloor>)
         [0..<length example_files] = [0, 1000000, 3000000]"
proof -
  have l: "[0..<length example_files] = [0, 1, 2]"
    by (simp add: example_files_def upt_rec [of 0] upt_rec [of 1] upt_rec [of 2] numeral_3_eq_3)
  show ?thesis unfolding l by (simp add: td_d seconds_of_def)
qed

text \<open>
  C6 as stated fails: the recorded times 0, 0, 1, 1 s are \<open>floor (i * 0.6666666)\<close>, yet
  the estimator returns \<open>None\<close>; and with the interval 0.0000001 the \<open>timedelta\<close> is
  zero, so the two returned times are equal and their spacing is not the interval.
\<close>

theorem estimate_floor_times_counterexample:
  "(0::real) < 6666666 / 10000000
   \<and> map (\<lambda>i. 1000000 * \<lfloor>0 + real i * (6666666 / 10000000)\<rfloor>) [0..<length four_files]
       = [0, 0, 1000000, 1000000]
   \<and> recorded_times (example_md (four_table 0 0 1000000 1000000)) four_files [0, 0, 1000000, 1000000]
   \<and> fst (estimate_sub_second_time (example_md (four_table 0 0 1000000 1000000)) four_files
        (6666666 / 10000000)) = Inr None
   \<and> (0::real) < 1 / 10000000
   \<and> map (\<lambda>i. 1000000 * \<lfloor>0 + real i * (1 / 10000000)\<rfloor>) [0..<length two_files] = [0, 0]
   \<and> recorded_times (example_md (example_table 0 0 0)) two_files [0, 0]
   \<and> fst (estimate_sub_second_time (example_md (example_table 0 0 0)) two_files (1 / 10000000))
       = Inr (Some [500000, 500000])
   \<and> seconds_of (500000 - 500000) \<noteq> 1 / 10000000"
proof -
  have e1: "fst (estimate_sub_second_time (example_md (four_table 0 0 1000000 1000000)) four_files
        (6666666 / 10000000)) = Inr None"
    by (simp only: estimate_rounded_interval_four fst_conv)
  have e2: "fst (estimate_sub_second_time (example_md (example_table 0 0 0)) two_files (1 / 10000000))
       = Inr (Some [500000, 500000])"
    by (simp only: estimate_zero_timedelta_two fst_conv)
  have p1: "(0::real) < 6666666 / 10000000" and p2: "(0::real) < 1 / 10000000" by simp_all
  have n: "seconds_of (500000 - 500000) \<noteq> 1 / 10000000" by (simp add: seconds_of_def)
  from p1 floor_times_four four_recorded_times [of 0 0 1000000 1000000] e1 p2 floor_times_two two_recorded_times [of 0 0 0] e2 n
  show ?thesis by (intro conjI)
qed

theorem estimate_recovers_base_witness:
  "(0::real) < 3 / 2 \<and> example_files \<noteq> []
   \<and> map (\<lambda>i. 1000000 * \<lfloor>3 / 10 + real i * seconds_of (timedelta_seconds (3 / 2))\<rfloor>)
         [0..<length example_files] = [0, 1000000, 3000000]
   \<and> recorded_times (example_md (example_table 0 1000000 3000000)) example_files [0, 1000000, 3000000]
   \<and> (\<exists>base' ts. fst (estimate_sub_second_time (example_md (example_table 0 1000000 3000000))
                        example_files (3 / 2)) = Inr (Some ts)
           \<and> length ts = length example_files
           \<and> (\<forall>i < length example_files. ts ! i = base' + int i * timedelta_seconds (3 / 2))
           \<and> \<bar>seconds_of base' - 3 / 10\<bar> \<le> 1 / 2
           \<and> (\<forall>i. Suc i < length example_files \<longrightarrow> ts ! Suc i - ts ! i = timedelta_seconds (3 / 2)))"
proof -
  have pos: "(0::real) < 3 / 2" by simp
  have ne: "example_files \<noteq> []" by (simp add: example_files_def)
  have rec: "recorded_times (example_md (example_table 0 1000000 3000000)) example_files
        (map (\<lambda>i. 1000000 * \<lfloor>3 / 10 + real i * seconds_of (timedelta_seconds (3 / 2))\<rfloor>)
           [0..<length example_files])"
    unfolding floor_times_example by (rule example_recorded_times)
  note main = estimate_recovers_base [OF pos ne rec]
  from pos ne floor_times_example example_recorded_times [of 0 1000000 3000000] main
  show ?thesis by (intro conjI)
qed


section \<open>Track loading\<close>


lemma for_points_append:
  "for_points g b (xs @ ys) acc =
     (case for_points g b xs acc of Inl e \<Rightarrow> Inl e | Inr acc' \<Rightarrow> for_points g b ys acc')"
  by (induction xs arbitrary: acc) (auto split: sum.splits)

lemma for_segments_points:
  "for_segments g b segs acc = for_points g b (concat (map segment_points segs)) acc"
  by (induction segs arbitrary: acc) (auto simp: for_points_append split: sum.splits)

lemma for_tracks_points:
  "for_tracks g b ts acc =
     for_points g b (concat (map segment_points (concat (map track_segments ts)))) acc"
  by (induction ts arbitrary: acc) (auto simp: for_points_append for_segments_points split: sum.splits)

lemma get_lat_lon_time_points:
  "get_lat_lon_time g gpx_file use_localtime =
     (case for_points g use_localtime (track_source_points gpx_file) [] of
        Inl e \<Rightarrow> Inl e
      | Inr points \<Rightarrow> py_sort points)"
  by (cases "gpx_tracks gpx_file"; cases "gpx_waypoints gpx_file")
     (auto simp: get_lat_lon_time_def track_source_points_def for_tracks_points for_points_append
        split: sum.splits)

lemma py_sort_Nil: "py_sort [] = Inr []"
  by (simp add: py_sort_def)

lemma for_points_utc:
  "for_points g False ps acc =
     Inr (acc @ map (\<lambda>p. (point_time p, point_latitude p, point_longitude p, point_elevation p)) ps)"
  by (induction ps arbitrary: acc) (simp_all add: append_point_def)

lemma sorted_fst: "sorted (ps :: trackpoint list) \<Longrightarrow> sorted (map fst ps)"
  by (induction ps) (auto simp: less_eq_prod_def)

text \<open>
  When no two of the collected tuples are incomparable and the times are left in UTC, the
  loader does return the merged points in non-decreasing order of time.
\<close>

lemma get_lat_lon_time_comparable:
  assumes "list_all (\<lambda>p. list_all (comparable p)
             (map (\<lambda>p. (point_time p, point_latitude p, point_longitude p, point_elevation p))
                (track_source_points gpx_file)))
             (map (\<lambda>p. (point_time p, point_latitude p, point_longitude p, point_elevation p))
                (track_source_points gpx_file))"
  shows "\<exists>points. get_lat_lon_time g gpx_file False = Inr points
           \<and> mset points = image_mset (\<lambda>p. (point_time p, point_latitude p, point_longitude p, point_elevation p))
                             (mset (track_source_points gpx_file))
           \<and> sorted (map fst points)"
  using assms by (simp add: get_lat_lon_time_points for_points_utc py_sort_def sorted_fst)

text \<open>
  C7. The claim promises, for every track source, the merged points sorted by time, and
  the code's own comment says "sort by time". \<open>points.sort()\<close> compares whole tuples
  instead: two points that agree in time, latitude and longitude, one with an elevation
  and one without, make it raise \<open>TypeError\<close>, and so does an untimed waypoint next to
  a timed track point. No list is returned for either track file.
\<close>

theorem get_lat_lon_time_sort_raises:
  "get_lat_lon_time example_geo tie_gpx False = Inl (TypeError ''< not supported between instances'')
   \<and> get_lat_lon_time example_geo untimed_gpx False = Inl (TypeError ''< not supported between instances'')"
  by (simp add: get_lat_lon_time_def tie_gpx_def untimed_gpx_def append_point_def py_sort_def
      comparable_def)

text \<open>
  C2, amended. When the track source yields zero points the loader returns the empty
  sequence, raising nothing; a run whose time estimation returned a non-empty list goes
  on to the per-image loop with the empty track.
\<close>

theorem empty_track_source_returns_empty:
  assumes "track_source_points gpx_file = []"
    and "estimate_sub_second_time md file_list (args_interval a) = (Inr (Some ts), out)"
    and "ts \<noteq> []"
  shows "get_lat_lon_time g gpx_file use_localtime = Inr []
         \<and> main g md file_list gpx_file a w =
             (case geotag_loop g [] (args_time_offset a) (args_bearing_offset a) (args_verbose a)
                     (zip file_list ts)
                     (print (StartingGeotagging (length file_list))
                        (print ReadingGPX (prints out (print EstimatingCaptureTime w)))) of
                (Some e, w') \<Rightarrow> (Some e, w')
              | (None, w') \<Rightarrow> (None, print (DoneGeotagging (length file_list)) w'))"
  using assms by (simp add: get_lat_lon_time_points py_sort_Nil main_def Let_def)

lemma example_estimate_zero:
  "estimate_sub_second_time (example_md (example_table 0 1000000 3000000)) example_files 0
     = (Inr (Some [0, 1000000, 3000000]), [])"
  by (simp add: estimate_sub_second_time_def example_files_def example_md_def example_table_def
      exif_time_def timedelta_milliseconds_def)

text \<open>
  C2 as stated fails: for a track file without tracks and waypoints the loader returns
  the empty list, and the run reaches the per-image loop.
\<close>

theorem empty_track_returns_empty_counterexample:
  "get_lat_lon_time example_geo empty_gpx True = Inr []
   \<and> StartingGeotagging 3 \<in> set (stdout (snd
        (main example_geo (example_md (example_table 0 1000000 3000000)) example_files empty_gpx
           example_args empty_world)))"
proof -
  have pts: "get_lat_lon_time example_geo empty_gpx use_localtime = Inr []" for use_localtime
    by (simp add: get_lat_lon_time_def empty_gpx_def py_sort_Nil)
  have est: "estimate_sub_second_time (example_md (example_table 0 1000000 3000000)) example_files
         (args_interval example_args) = (Inr (Some [0, 1000000, 3000000]), [])"
    by (simp add: example_args_def example_estimate_zero)
  have "main example_geo (example_md (example_table 0 1000000 3000000)) example_files empty_gpx
          example_args empty_world
      = (Some (OtherError ''IndexError''),
         \<lparr>stdout = [EstimatingCaptureTime, ReadingGPX, StartingGeotagging 3],
          image_metadata = (\<lambda>f. Map.empty)\<rparr>)"
    by (simp add: main_def est pts Let_def,
        simp add: example_files_def example_geo_def add_exif_using_timestamp_def print_def
          prints_def empty_world_def)
  with pts show ?thesis by simp
qed

theorem empty_track_source_returns_empty_witness:
  "track_source_points empty_gpx = []
   \<and> estimate_sub_second_time (example_md (example_table 0 1000000 3000000)) example_files
         (args_interval example_args) = (Inr (Some [0, 1000000, 3000000]), [])
   \<and> get_lat_lon_time example_geo empty_gpx False = Inr []
   \<and> main example_geo (example_md (example_table 0 1000000 3000000)) example_files empty_gpx
         example_args empty_world =
       (case geotag_loop example_geo [] (args_time_offset example_args)
               (args_bearing_offset example_args) (args_verbose example_args)
               (zip example_files [0, 1000000, 3000000])
               (print (StartingGeotagging (length example_files))
                  (print ReadingGPX (prints [] (print EstimatingCaptureTime empty_world)))) of
          (Some e, w') \<Rightarrow> (Some e, w')
        | (None, w') \<Rightarrow> (None, print (DoneGeotagging (length example_files)) w'))"
proof -
  have a: "track_source_points empty_gpx = []" by (simp add: track_source_points_def empty_gpx_def)
  have b: "estimate_sub_second_time (example_md (example_table 0 1000000 3000000)) example_files
         (args_interval example_args) = (Inr (Some [0, 1000000, 3000000]), [])"
    by (simp add: example_args_def example_estimate_zero)
  have c: "[0, 1000000, 3000000 :: int] \<noteq> []" by simp
  from empty_track_source_returns_empty [OF a b c, of example_geo False empty_world] a b
  show ?thesis by (intro conjI) simp_all
qed


section \<open>Tag writing and capture-time reading\<close>


lemma add_exif_skip:
  assumes "interpolate_lat_lon g points (t - timedelta_seconds offset_time) = Inl (ValueError r)"
  shows "add_exif_using_timestamp g f t points offset_time bearing_offset verbose w
           = (None, print (Skipping f r) w)"
  using assms by (simp add: add_exif_using_timestamp_def)

lemma add_exif_step:
  assumes "\<forall>e. interpolate_lat_lon g points (t - timedelta_seconds offset_time) = Inl e
             \<longrightarrow> (\<exists>r. e = ValueError r)"
  shows "fst (add_exif_using_timestamp g f t points offset_time bearing_offset verbose w) = None"
    and "stdout (snd (add_exif_using_timestamp g f t points offset_time bearing_offset verbose w))
           = stdout w @ image_report g points offset_time bearing_offset verbose (f, t)"
proof -
  show "fst (add_exif_using_timestamp g f t points offset_time bearing_offset verbose w) = None"
  proof (cases "interpolate_lat_lon g points (t - timedelta_seconds offset_time)")
    case (Inl e)
    with assms obtain r where "e = ValueError r" by blast
    with Inl show ?thesis by (simp add: add_exif_using_timestamp_def)
  next
    case (Inr res)
    then show ?thesis by (cases res) (simp add: add_exif_using_timestamp_def Let_def)
  qed
  show "stdout (snd (add_exif_using_timestamp g f t points offset_time bearing_offset verbose w))
           = stdout w @ image_report g points offset_time bearing_offset verbose (f, t)"
  proof (cases "interpolate_lat_lon g points (t - timedelta_seconds offset_time)")
    case (Inl e)
    with assms obtain r where "e = ValueError r" by blast
    with Inl show ?thesis by (simp add: add_exif_using_timestamp_def image_report_def print_def)
  next
    case (Inr res)
    then show ?thesis
      by (cases res) (simp add: add_exif_using_timestamp_def image_report_def print_def Let_def)
  qed
qed

lemma add_exif_other_image:
  assumes "f' \<noteq> f"
  shows "image_metadata (snd (add_exif_using_timestamp g f t points offset_time bearing_offset verbose w)) f'
           = image_metadata w f'"
proof (cases "interpolate_lat_lon g points (t - timedelta_seconds offset_time)")
  case (Inl e)
  then show ?thesis by (cases e) (simp_all add: add_exif_using_timestamp_def print_def)
next
  case (Inr res)
  with assms show ?thesis
    by (cases res) (simp add: add_exif_using_timestamp_def print_def Let_def)
qed

lemma add_exif_skipped_image:
  assumes "interpolate_lat_lon g points (t - timedelta_seconds offset_time) = Inl (ValueError r)"
  shows "image_metadata (snd (add_exif_using_timestamp g f t points offset_time bearing_offset verbose w))
           = image_metadata w"
  using assms by (simp add: add_exif_using_timestamp_def print_def)

lemma set_elevation_datum:
  "m ''Exif.GPSInfo.GPSMapDatum'' = Some v \<Longrightarrow> set_elevation el m ''Exif.GPSInfo.GPSMapDatum'' = Some v"
  by (cases el) (simp_all add: set_elevation_def)

lemma add_exif_tagged:
  assumes "interpolate_lat_lon g points (t - timedelta_seconds offset_time) = Inr res"
  shows "image_metadata (snd (add_exif_using_timestamp g f t points offset_time bearing_offset verbose w))
           f ''Exif.GPSInfo.GPSMapDatum'' = Some (Str ''WGS-84'')"
  using assms
  by (cases res) (simp add: add_exif_using_timestamp_def print_def Let_def set_elevation_datum)

lemma add_exif_keeps_datum:
  assumes "image_metadata w f' ''Exif.GPSInfo.GPSMapDatum'' = Some (Str ''WGS-84'')"
  shows "image_metadata (snd (add_exif_using_timestamp g f t points offset_time bearing_offset verbose w))
           f' ''Exif.GPSInfo.GPSMapDatum'' = Some (Str ''WGS-84'')"
proof (cases "interpolate_lat_lon g points (t - timedelta_seconds offset_time)")
  case (Inl e)
  with assms show ?thesis by (cases e) (simp_all add: add_exif_using_timestamp_def print_def)
next
  case (Inr res)
  show ?thesis
  proof (cases "f' = f")
    case True
    with add_exif_tagged [OF Inr] show ?thesis by simp
  next
    case False
    with assms add_exif_other_image [OF False] show ?thesis by simp
  qed
qed

lemma geotag_loop_keeps_datum:
  assumes "image_metadata w f' ''Exif.GPSInfo.GPSMapDatum'' = Some (Str ''WGS-84'')"
  shows "image_metadata (snd (geotag_loop g points offset_time bearing_offset verbose jobs w))
           f' ''Exif.GPSInfo.GPSMapDatum'' = Some (Str ''WGS-84'')"
  using assms
proof (induction jobs arbitrary: w)
  case Nil
  then show ?case by simp
next
  case (Cons job jobs)
  obtain f t where job: "job = (f, t)" by (cases job)
  obtain r w' where step: "add_exif_using_timestamp g f t points offset_time bearing_offset verbose w = (r, w')"
    by (cases "add_exif_using_timestamp g f t points offset_time bearing_offset verbose w")
  from add_exif_keeps_datum [OF Cons.prems, of g f t points offset_time bearing_offset verbose] step
  have keep: "image_metadata w' f' ''Exif.GPSInfo.GPSMapDatum'' = Some (Str ''WGS-84'')" by simp
  show ?case
  proof (cases r)
    case None
    with step job Cons.IH [OF keep] show ?thesis by simp
  next
    case (Some e)
    with step job keep show ?thesis by simp
  qed
qed

lemma geotag_loop_batch:
  assumes "\<forall>(f, t) \<in> set jobs. \<forall>e. interpolate_lat_lon g points (t - timedelta_seconds offset_time) = Inl e
             \<longrightarrow> (\<exists>r. e = ValueError r)"
  shows "fst (geotag_loop g points offset_time bearing_offset verbose jobs w) = None
    \<and> stdout (snd (geotag_loop g points offset_time bearing_offset verbose jobs w))
        = stdout w @ concat (map (image_report g points offset_time bearing_offset verbose) jobs)
    \<and> (\<forall>f. (\<forall>t. (f, t) \<in> set jobs \<longrightarrow>
               (\<exists>r. interpolate_lat_lon g points (t - timedelta_seconds offset_time) = Inl (ValueError r)))
          \<longrightarrow> image_metadata (snd (geotag_loop g points offset_time bearing_offset verbose jobs w)) f
              = image_metadata w f)
    \<and> (\<forall>(f, t) \<in> set jobs.
          (\<exists>res. interpolate_lat_lon g points (t - timedelta_seconds offset_time) = Inr res)
          \<longrightarrow> image_metadata (snd (geotag_loop g points offset_time bearing_offset verbose jobs w))
                f ''Exif.GPSInfo.GPSMapDatum'' = Some (Str ''WGS-84''))"
  using assms
proof (induction jobs arbitrary: w)
  case Nil
  then show ?case by simp
next
  case (Cons job jobs)
  obtain f t where job: "job = (f, t)" by (cases job)
  from Cons.prems job
  have one: "\<forall>e. interpolate_lat_lon g points (t - timedelta_seconds offset_time) = Inl e
               \<longrightarrow> (\<exists>r. e = ValueError r)"
    and rest: "\<forall>(f, t) \<in> set jobs. \<forall>e. interpolate_lat_lon g points (t - timedelta_seconds offset_time) = Inl e
             \<longrightarrow> (\<exists>r. e = ValueError r)"
    by auto
  let ?step = "add_exif_using_timestamp g f t points offset_time bearing_offset verbose w"
  obtain w' where step: "?step = (None, w')"
    using add_exif_step(1) [OF one, of f bearing_offset verbose w] by (cases ?step) auto
  have out: "stdout w' = stdout w @ image_report g points offset_time bearing_offset verbose (f, t)"
    using add_exif_step(2) [OF one, of f bearing_offset verbose w] step by simp
  have loop: "geotag_loop g points offset_time bearing_offset verbose (job # jobs) w
                = geotag_loop g points offset_time bearing_offset verbose jobs w'"
    by (simp add: job step)
  note IH = Cons.IH [OF rest, of w']
  have c1: "fst (geotag_loop g points offset_time bearing_offset verbose (job # jobs) w) = None"
    using IH loop by simp
  have c2: "stdout (snd (geotag_loop g points offset_time bearing_offset verbose (job # jobs) w))
        = stdout w @ concat (map (image_report g points offset_time bearing_offset verbose) (job # jobs))"
    using IH loop out by (simp add: job)
  have c3: "image_metadata (snd (geotag_loop g points offset_time bearing_offset verbose (job # jobs) w)) f'
              = image_metadata w f'"
    if all: "\<forall>t. (f', t) \<in> set (job # jobs) \<longrightarrow>
               (\<exists>r. interpolate_lat_lon g points (t - timedelta_seconds offset_time) = Inl (ValueError r))"
    for f'
  proof -
    from all have tl: "\<forall>t. (f', t) \<in> set jobs \<longrightarrow>
               (\<exists>r. interpolate_lat_lon g points (t - timedelta_seconds offset_time) = Inl (ValueError r))"
      by simp
    have "image_metadata w' f' = image_metadata w f'"
    proof (cases "f' = f")
      case True
      with all job obtain r where
        "interpolate_lat_lon g points (t - timedelta_seconds offset_time) = Inl (ValueError r)"
        by auto
      from add_exif_skipped_image [OF this, of f bearing_offset verbose w] step show ?thesis by simp
    next
      case False
      from add_exif_other_image [OF False, of g t points offset_time bearing_offset verbose w] step
      show ?thesis by simp
    qed
    with IH tl loop show ?thesis by simp
  qed
  have c4: "image_metadata (snd (geotag_loop g points offset_time bearing_offset verbose (job # jobs) w))
                f' ''Exif.GPSInfo.GPSMapDatum'' = Some (Str ''WGS-84'')"
    if mem: "(f', t') \<in> set (job # jobs)"
      and ok: "interpolate_lat_lon g points (t' - timedelta_seconds offset_time) = Inr res"
    for f' t' res
  proof (cases "(f', t') = (f, t)")
    case True
    with ok add_exif_tagged [of g points t offset_time res f bearing_offset verbose w] step
    have "image_metadata w' f' ''Exif.GPSInfo.GPSMapDatum'' = Some (Str ''WGS-84'')" by simp
    from geotag_loop_keeps_datum [OF this] loop show ?thesis by simp
  next
    case False
    with mem job have m: "(f', t') \<in> set jobs" by auto
    from IH have "\<forall>(f, t) \<in> set jobs.
          (\<exists>res. interpolate_lat_lon g points (t - timedelta_seconds offset_time) = Inr res)
          \<longrightarrow> image_metadata (snd (geotag_loop g points offset_time bearing_offset verbose jobs w'))
                f ''Exif.GPSInfo.GPSMapDatum'' = Some (Str ''WGS-84'')"
      by (elim conjE)
    from bspec [OF this m] ok
    have "image_metadata (snd (geotag_loop g points offset_time bearing_offset verbose jobs w'))
                f' ''Exif.GPSInfo.GPSMapDatum'' = Some (Str ''WGS-84'')"
      by blast
    with loop show ?thesis by simp
  qed
  from c1 c2 c3 c4 show ?case by blast
qed


text \<open>
  C8. In a batch whose interpolation failures are all the out-of-range \<open>ValueError\<close>,
  the loop over the images ends without an exception, and what it prints is exactly
  the report of each image in turn. For every image whose query time (its time minus
  the clock offset) is refused, the skip line with the file name and the reason is in
  the output and the call for that image returns normally, having only printed that
  line; an image whose query times are all refused has the metadata it had before the
  loop; every other image of the batch, before or after a skipped one, has been tagged.
\<close>

theorem skip_on_interpolation_error:
  assumes "\<forall>(f, t) \<in> set jobs. \<forall>e. interpolate_lat_lon g points (t - timedelta_seconds offset_time) = Inl e
             \<longrightarrow> (\<exists>r. e = ValueError r)"
  shows "fst (geotag_loop g points offset_time bearing_offset verbose jobs w) = None
    \<and> stdout (snd (geotag_loop g points offset_time bearing_offset verbose jobs w))
        = stdout w @ concat (map (image_report g points offset_time bearing_offset verbose) jobs)
    \<and> (\<forall>(f, t) \<in> set jobs. \<forall>r.
          interpolate_lat_lon g points (t - timedelta_seconds offset_time) = Inl (ValueError r)
          \<longrightarrow> Skipping f r
                \<in> set (stdout (snd (geotag_loop g points offset_time bearing_offset verbose jobs w)))
              \<and> (\<forall>w'. add_exif_using_timestamp g f t points offset_time bearing_offset verbose w'
                         = (None, print (Skipping f r) w')))
    \<and> (\<forall>f. (\<forall>t. (f, t) \<in> set jobs \<longrightarrow>
               (\<exists>r. interpolate_lat_lon g points (t - timedelta_seconds offset_time) = Inl (ValueError r)))
          \<longrightarrow> image_metadata (snd (geotag_loop g points offset_time bearing_offset verbose jobs w)) f
              = image_metadata w f)
    \<and> (\<forall>(f, t) \<in> set jobs.
          (\<exists>res. interpolate_lat_lon g points (t - timedelta_seconds offset_time) = Inr res)
          \<longrightarrow> image_metadata (snd (geotag_loop g points offset_time bearing_offset verbose jobs w))
                f ''Exif.GPSInfo.GPSMapDatum'' = Some (Str ''WGS-84''))"
proof -
  note batch = geotag_loop_batch [OF assms, of bearing_offset verbose w]
  have skip: "Skipping f r
                \<in> set (stdout (snd (geotag_loop g points offset_time bearing_offset verbose jobs w)))
              \<and> (\<forall>w'. add_exif_using_timestamp g f t points offset_time bearing_offset verbose w'
                         = (None, print (Skipping f r) w'))"
    if mem: "(f, t) \<in> set jobs"
      and err: "interpolate_lat_lon g points (t - timedelta_seconds offset_time) = Inl (ValueError r)"
    for f t r
  proof -
    from err have "image_report g points offset_time bearing_offset verbose (f, t) = [Skipping f r]"
      by (simp add: image_report_def)
    with mem have "Skipping f r
        \<in> set (concat (map (image_report g points offset_time bearing_offset verbose) jobs))"
      by force
    with batch have "Skipping f r
        \<in> set (stdout (snd (geotag_loop g points offset_time bearing_offset verbose jobs w)))"
      by simp
    with add_exif_skip [OF err] show ?thesis by blast
  qed
  from batch skip show ?thesis by blast
qed

lemma td_zero: "timedelta_seconds 0 = 0"
  by (simp add: timedelta_seconds_def py_round_def)

theorem skip_on_interpolation_error_witness:
  "interpolate_lat_lon example_geo example_points (100000000 - timedelta_seconds 0)
     = Inl (ValueError ''Time t not in scope of gpx file.'')
   \<and> fst (geotag_loop example_geo example_points 0 0 False skip_jobs empty_world) = None
   \<and> stdout (snd (geotag_loop example_geo example_points 0 0 False skip_jobs empty_world))
       = [Skipping ''a.jpg'' ''Time t not in scope of gpx file.'']
   \<and> image_metadata (snd (geotag_loop example_geo example_points 0 0 False skip_jobs empty_world))
         ''a.jpg'' = Map.empty
   \<and> image_metadata (snd (geotag_loop example_geo example_points 0 0 False skip_jobs empty_world))
         ''b.jpg'' ''Exif.GPSInfo.GPSMapDatum'' = Some (Str ''WGS-84'')"
proof -
  have a: "interpolate_lat_lon example_geo example_points (100000000 - timedelta_seconds 0)
     = Inl (ValueError ''Time t not in scope of gpx file.'')"
    by (simp add: example_geo_def example_points_def td_zero)
  have b: "interpolate_lat_lon example_geo example_points (5000000 - timedelta_seconds 0)
     = Inr (10, 20, 0, Some 100)"
    by (simp add: example_geo_def example_points_def td_zero)
  have hyp: "\<forall>(f, t) \<in> set skip_jobs. \<forall>e.
      interpolate_lat_lon example_geo example_points (t - timedelta_seconds 0) = Inl e
      \<longrightarrow> (\<exists>r. e = ValueError r)"
    using a b by (simp add: skip_jobs_def)
  note inst = skip_on_interpolation_error [OF hyp, of 0 False empty_world]
  from inst have c1: "fst (geotag_loop example_geo example_points 0 0 False skip_jobs empty_world) = None"
    by (elim conjE)
  from inst have "stdout (snd (geotag_loop example_geo example_points 0 0 False skip_jobs empty_world))
        = stdout empty_world @ concat (map (image_report example_geo example_points 0 0 False) skip_jobs)"
    by (elim conjE)
  then have c2: "stdout (snd (geotag_loop example_geo example_points 0 0 False skip_jobs empty_world))
       = [Skipping ''a.jpg'' ''Time t not in scope of gpx file.'']"
    using a b by (simp add: skip_jobs_def image_report_def empty_world_def)
  from inst have "\<forall>f. (\<forall>t. (f, t) \<in> set skip_jobs \<longrightarrow>
               (\<exists>r. interpolate_lat_lon example_geo example_points (t - timedelta_seconds 0)
                      = Inl (ValueError r)))
          \<longrightarrow> image_metadata (snd (geotag_loop example_geo example_points 0 0 False skip_jobs empty_world)) f
              = image_metadata empty_world f"
    by (elim conjE)
  then have "(\<forall>t. (''a.jpg'', t) \<in> set skip_jobs \<longrightarrow>
               (\<exists>r. interpolate_lat_lon example_geo example_points (t - timedelta_seconds 0)
                      = Inl (ValueError r)))
          \<longrightarrow> image_metadata (snd (geotag_loop example_geo example_points 0 0 False skip_jobs empty_world)) ''a.jpg''
              = image_metadata empty_world ''a.jpg''"
    by (rule spec)
  then have c3: "image_metadata (snd (geotag_loop example_geo example_points 0 0 False skip_jobs empty_world))
         ''a.jpg'' = Map.empty"
    using a by (simp add: skip_jobs_def empty_world_def)
  from inst have "\<forall>(f, t) \<in> set skip_jobs.
          (\<exists>res. interpolate_lat_lon example_geo example_points (t - timedelta_seconds 0) = Inr res)
          \<longrightarrow> image_metadata (snd (geotag_loop example_geo example_points 0 0 False skip_jobs empty_world))
                f ''Exif.GPSInfo.GPSMapDatum'' = Some (Str ''WGS-84'')"
    by (elim conjE)
  then have c4: "image_metadata (snd (geotag_loop example_geo example_points 0 0 False skip_jobs empty_world))
         ''b.jpg'' ''Exif.GPSInfo.GPSMapDatum'' = Some (Str ''WGS-84'')"
    using b by (simp add: skip_jobs_def)
  from a c1 c2 c3 c4 show ?thesis by (intro conjI)
qed

lemma example_sorted:
  "get_lat_lon_time example_geo example_gpx False = Inr example_points"
  by (simp add: get_lat_lon_time_def example_gpx_def append_point_def py_sort_def comparable_def
      example_points_def less_eq_prod_def)

text \<open>
  C9. The claim wants an image without readable capture-time metadata reported and
  skipped while the batch continues. For an image without \<open>DateTimeOriginal\<close> the
  handler does catch the \<open>KeyError\<close> and print the report, but the next line reads the
  unbound \<open>image_time\<close>: the unbound-variable error leaves \<open>exif_time\<close> and the
  estimator and ends the run, with the interval zero and with an interval of two
  seconds alike. Nothing is written, not even for \<open>b.jpg\<close>, which is tagged when it
  is processed alone.
\<close>

theorem exif_time_missing_date_aborts:
  "exif_time missing_date_md ''a.jpg''
     = (Inl (UnboundLocalError ''image_time''),
        [ErrorReading ''a.jpg'' ''Exif.Photo.DateTimeOriginal''])
   \<and> main example_geo missing_date_md two_files example_gpx example_args empty_world
     = (Some (UnboundLocalError ''image_time''),
        \<lparr>stdout = [EstimatingCaptureTime, ErrorReading ''a.jpg'' ''Exif.Photo.DateTimeOriginal''],
         image_metadata = (\<lambda>f. Map.empty)\<rparr>)
   \<and> main example_geo missing_date_md two_files example_gpx (example_args\<lparr>args_interval := 2\<rparr>)
        empty_world
     = (Some (UnboundLocalError ''image_time''),
        \<lparr>stdout = [EstimatingCaptureTime, ErrorReading ''a.jpg'' ''Exif.Photo.DateTimeOriginal''],
         image_metadata = (\<lambda>f. Map.empty)\<rparr>)
   \<and> fst (main example_geo missing_date_md [''b.jpg''] example_gpx example_args empty_world) = None
   \<and> image_metadata (snd (main example_geo missing_date_md [''b.jpg''] example_gpx example_args
         empty_world)) ''b.jpg'' ''Exif.GPSInfo.GPSMapDatum'' = Some (Str ''WGS-84'')"
proof -
  have a: "exif_time missing_date_md ''a.jpg''
     = (Inl (UnboundLocalError ''image_time''),
        [ErrorReading ''a.jpg'' ''Exif.Photo.DateTimeOriginal''])"
    by (simp add: exif_time_def missing_date_md_def example_md_def)
  have b: "exif_time missing_date_md ''b.jpg'' = (Inr 5000000, [])"
    by (simp add: exif_time_def missing_date_md_def example_md_def timedelta_milliseconds_def)
  have m0: "main example_geo missing_date_md two_files example_gpx example_args empty_world
     = (Some (UnboundLocalError ''image_time''),
        \<lparr>stdout = [EstimatingCaptureTime, ErrorReading ''a.jpg'' ''Exif.Photo.DateTimeOriginal''],
         image_metadata = (\<lambda>f. Map.empty)\<rparr>)"
    by (simp add: main_def example_args_def estimate_sub_second_time_def two_files_def a Let_def
        print_def prints_def empty_world_def)
  have m2: "main example_geo missing_date_md two_files example_gpx (example_args\<lparr>args_interval := 2\<rparr>)
        empty_world
     = (Some (UnboundLocalError ''image_time''),
        \<lparr>stdout = [EstimatingCaptureTime, ErrorReading ''a.jpg'' ''Exif.Photo.DateTimeOriginal''],
         image_metadata = (\<lambda>f. Map.empty)\<rparr>)"
    by (simp add: main_def example_args_def estimate_sub_second_time_def two_files_def a Let_def
        print_def prints_def empty_world_def)
  have c: "fst (main example_geo missing_date_md [''b.jpg''] example_gpx example_args empty_world) = None"
    by (simp add: main_def example_args_def estimate_sub_second_time_def b example_sorted Let_def,
        simp add: add_exif_using_timestamp_def example_geo_def example_points_def td_zero Let_def)
  have d: "image_metadata (snd (main example_geo missing_date_md [''b.jpg''] example_gpx example_args
         empty_world)) ''b.jpg'' ''Exif.GPSInfo.GPSMapDatum'' = Some (Str ''WGS-84'')"
    by (simp add: main_def example_args_def estimate_sub_second_time_def b example_sorted Let_def,
        simp add: add_exif_using_timestamp_def example_geo_def example_points_def td_zero print_def
          prints_def set_elevation_def Let_def)
  from a m0 m2 c d show ?thesis by (intro conjI)
qed


end
